theory Spec2Isabelle
  imports Complex_Main
begin

section \<open>Text: Python strings and the two regular expressions\<close>

text \<open>
  A Python \<^verbatim>\<open>str\<close> is a \<open>string\<close>: a list of 8-bit characters, read as the code
  points U+0000 to U+00FF. The classes \<^verbatim>\<open>\s\<close> and \<^verbatim>\<open>\w\<close> of the \<^verbatim>\<open>re\<close> module are
  given for that range as CPython classifies it (\<^verbatim>\<open>str.isspace\<close>, and \<^verbatim>\<open>str.isalnum\<close>
  or the underscore).
\<close>

definition is_space :: "char \<Rightarrow> bool" where
  "is_space c = (let n = of_char c :: nat in
     (9 \<le> n \<and> n \<le> 13) \<or> (28 \<le> n \<and> n \<le> 32) \<or> n = 133 \<or> n = 160)"

definition is_word :: "char \<Rightarrow> bool" where
  "is_word c = (let n = of_char c :: nat in
     (48 \<le> n \<and> n \<le> 57) \<or> (65 \<le> n \<and> n \<le> 90) \<or> n = 95 \<or> (97 \<le> n \<and> n \<le> 122) \<or>
     n = 170 \<or> n = 178 \<or> n = 179 \<or> n = 181 \<or> n = 185 \<or> n = 186 \<or>
     (188 \<le> n \<and> n \<le> 190) \<or> (192 \<le> n \<and> n \<le> 214) \<or> (216 \<le> n \<and> n \<le> 246) \<or>
     (248 \<le> n \<and> n \<le> 255))"

text \<open>\<^verbatim>\<open>str(n)\<close> for a natural number: its decimal digits.\<close>

definition digit_char :: "nat \<Rightarrow> char" where
  "digit_char d = ''0123456789'' ! d"

fun show_nat :: "nat \<Rightarrow> string" where
  "show_nat n = (if n < 10 then [digit_char n] else show_nat (n div 10) @ [digit_char (n mod 10)])"

declare show_nat.simps [simp del]

text \<open>\<^verbatim>\<open>old in s\<close> on strings, and \<^verbatim>\<open>s.find(old)\<close> as the split of \<open>s\<close> around the
  first occurrence of \<open>old\<close>.\<close>

fun starts_with :: "string \<Rightarrow> string \<Rightarrow> bool" where
  "starts_with [] s = True"
| "starts_with (p # ps) [] = False"
| "starts_with (p # ps) (c # cs) = (p = c \<and> starts_with ps cs)"

fun contains :: "string \<Rightarrow> string \<Rightarrow> bool" where
  "contains old [] = (old = [])"
| "contains old (c # cs) = (starts_with old (c # cs) \<or> contains old cs)"

fun split_first :: "string \<Rightarrow> string \<Rightarrow> (string \<times> string) option" where
  "split_first old [] = (if old = [] then Some ([], []) else None)"
| "split_first old (c # cs) =
     (if starts_with old (c # cs) then Some ([], drop (length old) (c # cs))
      else (case split_first old cs of
              None \<Rightarrow> None
            | Some (before, after) \<Rightarrow> Some (c # before, after)))"

text \<open>\<^verbatim>\<open>s.replace(old, new)\<close>: every occurrence, left to right, without overlap; with an
  empty \<open>old\<close> Python puts \<open>new\<close> before every character and at the end.\<close>

function replace_all :: "string \<Rightarrow> string \<Rightarrow> string \<Rightarrow> string" where
  "replace_all old new s =
     (if old = [] then new @ concat (map (\<lambda>c. c # new) s)
      else if s = [] then []
      else if starts_with old s then new @ replace_all old new (drop (length old) s)
      else hd s # replace_all old new (tl s))"
  by pat_completeness auto
termination
  by (relation "measure (\<lambda>(old, new, s). length s)") (auto simp: neq_Nil_conv)

declare replace_all.simps [simp del]

subsection \<open>The class declaration pattern\<close>

text \<open>
  \<^verbatim>\<open>re.search(r'class\s+(\w+)\s*\(\s*Scene\s*\)', code)\<close>, used by
  \<^verbatim>\<open>ensure_proper_class_name\<close> and by \<^verbatim>\<open>extract_class_name\<close>. \<open>class_match_at s\<close> is the
  match anchored at the start of \<open>s\<close> and gives group 1. Each repetition is followed by
  a character outside its class, so the greedy run is the only way to match and no
  backtracking is lost. \<open>class_search\<close> tries every start position from the left.
\<close>

definition class_match_at :: "string \<Rightarrow> string option" where
  "class_match_at s =
     (if \<not> starts_with ''class'' s then None
      else let r1 = drop 5 s;
               r2 = dropWhile is_space r1;
               name = takeWhile is_word r2;
               r3 = dropWhile is_space (dropWhile is_word r2);
               r4 = dropWhile is_space (drop 1 r3);
               r5 = dropWhile is_space (drop 5 r4)
           in if takeWhile is_space r1 \<noteq> [] \<and> name \<noteq> [] \<and> starts_with ''('' r3 \<and>
                 starts_with ''Scene'' r4 \<and> starts_with '')'' r5
              then Some name else None)"

fun class_search :: "string \<Rightarrow> string option" where
  "class_search [] = class_match_at []"
| "class_search (c # cs) =
     (case class_match_at (c # cs) of Some name \<Rightarrow> Some name | None \<Rightarrow> class_search cs)"

subsection \<open>The fenced block pattern\<close>

text \<open>
  \<^verbatim>\<open>re.search(r'```json\n([\s\S]*?)\n```', text)\<close> and its siblings with the label
  \<^verbatim>\<open>python\<close> or with no label. \<open>fence_search label text\<close> is group 1 of the leftmost
  match: the text after the first opening line up to the first closing line after it.
  When the first opening has no closing line after it, no later opening has one either.
\<close>

definition nl :: string where
  "nl = [CHR 0x0A]"

definition fence :: string where
  "fence = [CHR 0x60, CHR 0x60, CHR 0x60]"

definition fence_search :: "string \<Rightarrow> string \<Rightarrow> string option" where
  "fence_search label text =
     (case split_first (fence @ label @ nl) text of
        None \<Rightarrow> None
      | Some (before, rest) \<Rightarrow>
          (case split_first (nl @ fence) rest of
             None \<Rightarrow> None
           | Some (body, after) \<Rightarrow> Some body))"

text \<open>
  The extraction in \<^verbatim>\<open>generate_script\<close> (label \<^verbatim>\<open>json\<close>) and \<^verbatim>\<open>generate_manim_code\<close>
  (label \<^verbatim>\<open>python\<close>): \<^verbatim>\<open>m = re.search(labelled) or re.search(label_free)\<close>, then
  group 1 of \<open>m\<close>, or the whole response when \<open>m\<close> is \<^verbatim>\<open>None\<close>.
\<close>

definition extract_payload :: "string \<Rightarrow> string \<Rightarrow> string" where
  "extract_payload label text_response =
     (case fence_search label text_response of
        Some body \<Rightarrow> body
      | None \<Rightarrow>
          (case fence_search [] text_response of
             Some body \<Rightarrow> body
           | None \<Rightarrow> text_response))"

text \<open>
  The extraction as the specification words it: the label-free form is attempted before
  the labelled one.
\<close>

definition spec_extract_payload :: "string \<Rightarrow> string \<Rightarrow> string" where
  "spec_extract_payload label text_response =
     (case fence_search [] text_response of
        Some body \<Rightarrow> body
      | None \<Rightarrow>
          (case fence_search label text_response of
             Some body \<Rightarrow> body
           | None \<Rightarrow> text_response))"

subsection \<open>\<^verbatim>\<open>ensure_proper_class_name\<close>\<close>

definition dq :: string where
  "dq = [CHR 0x22]"

definition text_lines :: "string list \<Rightarrow> string" where
  "text_lines ls = concat (map (\<lambda>l. l @ nl) ls)"

definition fallback_program :: "nat \<Rightarrow> string" where
  "fallback_program index =
     text_lines
     [''from manim import *'',
      [],
      ''class Scene'' @ show_nat (index + 1) @ ''(Scene):'',
      ''    def construct(self):'',
      ''        # Fallback implementation'',
      ''        title = Text('' @ dq @ ''Scene '' @ show_nat (index + 1) @ dq @ '')'',
      ''        self.play(Write(title))'',
      ''        self.wait(2)'',
      ''        self.play(FadeOut(title))'']"

definition ensure_proper_class_name :: "string \<Rightarrow> nat \<Rightarrow> string" where
  "ensure_proper_class_name code index =
     (case class_search code of
        Some current_class_name \<Rightarrow>
          (let desired_class_name = ''Scene'' @ show_nat (index + 1)
           in if \<not> contains (''Scene'' @ show_nat (index + 1)) current_class_name
              then replace_all (''class '' @ current_class_name @ ''(Scene)'')
                     (''class '' @ desired_class_name @ ''(Scene)'') code
              else code)
      | None \<Rightarrow> fallback_program index)"

text \<open>\<^verbatim>\<open>extract_class_name\<close> of the renderer: the same pattern, group 1 or \<^verbatim>\<open>None\<close>.\<close>

definition extract_class_name :: "string \<Rightarrow> string option" where
  "extract_class_name code = class_search code"

section \<open>Exceptions, effects and the environment\<close>

text \<open>
  A Python exception is its class name with its description \<^verbatim>\<open>str(e)\<close>. A function with
  effects takes the state and gives back a result and the new state; the result is
  \<open>Inl e\<close> when the function raises \<open>e\<close>. \<open>io_get\<close> reads the state. \<open>io_try\<close> is \<^verbatim>\<open>try: ... except Exception as e: ...\<close>
  and \<open>io_finally\<close> is \<^verbatim>\<open>try: ... finally: ...\<close>, where an exception of the final block
  replaces the outcome of the body.
\<close>

datatype exn = Exn (exn_class: string) (exn_str: string)

type_synonym ('a, 's) io = "'s \<Rightarrow> (exn + 'a) \<times> 's"

definition io_return :: "'a \<Rightarrow> ('a, 's) io" where
  "io_return x = (\<lambda>s. (Inr x, s))"

definition io_raise :: "exn \<Rightarrow> ('a, 's) io" where
  "io_raise e = (\<lambda>s. (Inl e, s))"

definition io_get :: "('s \<Rightarrow> 'a) \<Rightarrow> ('a, 's) io" where
  "io_get f = (\<lambda>s. (Inr (f s), s))"

definition io_bind :: "('a, 's) io \<Rightarrow> ('a \<Rightarrow> ('b, 's) io) \<Rightarrow> ('b, 's) io" where
  "io_bind m f = (\<lambda>s. case m s of (Inl e, s') \<Rightarrow> (Inl e, s') | (Inr x, s') \<Rightarrow> f x s')"

definition io_try :: "('a, 's) io \<Rightarrow> (exn \<Rightarrow> ('a, 's) io) \<Rightarrow> ('a, 's) io" where
  "io_try m handler = (\<lambda>s. case m s of (Inl e, s') \<Rightarrow> handler e s' | (Inr x, s') \<Rightarrow> (Inr x, s'))"

definition io_finally :: "('a, 's) io \<Rightarrow> (unit, 's) io \<Rightarrow> ('a, 's) io" where
  "io_finally m cleanup =
     (\<lambda>s. case m s of (r, s') \<Rightarrow>
        (case cleanup s' of (Inl e, s'') \<Rightarrow> (Inl e, s'') | (Inr u, s'') \<Rightarrow> (r, s'')))"

subsection \<open>The file system\<close>

text \<open>
  The files with their contents, the directories, whether the device is full, and the
  counter \<^verbatim>\<open>tempfile.mkdtemp\<close> names its directories from. Paths are compared as they are
  written. The order of \<open>files\<close> stands for the order in which the operating system
  lists them. The library calls fail as POSIX makes them fail on a missing or wrongly
  typed path and on a full device, and on nothing else.
\<close>

type_synonym path = string

record world =
  files :: "(path \<times> string) list"
  dirs :: "path list"
  disk_full :: bool
  temps :: nat

definition is_file :: "world \<Rightarrow> path \<Rightarrow> bool" where
  "is_file w p = (map_of (files w) p \<noteq> None)"

definition is_dir :: "world \<Rightarrow> path \<Rightarrow> bool" where
  "is_dir w p = (p \<in> set (dirs w))"


definition read_file :: "world \<Rightarrow> path \<Rightarrow> string option" where
  "read_file w p = map_of (files w) p"

definition quoted :: "string \<Rightarrow> string" where
  "quoted s = [CHR 0x27] @ s @ [CHR 0x27]"

definition no_such_file :: "path \<Rightarrow> exn" where
  "no_such_file p = Exn ''FileNotFoundError'' (''[Errno 2] No such file or directory: '' @ quoted p)"

definition file_exists_error :: "path \<Rightarrow> exn" where
  "file_exists_error p = Exn ''FileExistsError'' (''[Errno 17] File exists: '' @ quoted p)"

definition not_a_directory :: "path \<Rightarrow> exn" where
  "not_a_directory p = Exn ''NotADirectoryError'' (''[Errno 20] Not a directory: '' @ quoted p)"

definition is_a_directory :: "path \<Rightarrow> exn" where
  "is_a_directory p = Exn ''IsADirectoryError'' (''[Errno 21] Is a directory: '' @ quoted p)"

definition no_space :: "path \<Rightarrow> exn" where
  "no_space p = Exn ''OSError'' (''[Errno 28] No space left on device: '' @ quoted p)"

text \<open>\<^verbatim>\<open>os.path.dirname\<close> and \<^verbatim>\<open>os.path.basename\<close> of \<^verbatim>\<open>posixpath\<close>.\<close>

definition dirname :: "path \<Rightarrow> path" where
  "dirname p =
     (let head = rev (dropWhile (\<lambda>c. c \<noteq> CHR ''/'') (rev p))
      in if head \<noteq> [] \<and> \<not> list_all (\<lambda>c. c = CHR ''/'') head
         then rev (dropWhile (\<lambda>c. c = CHR ''/'') (rev head)) else head)"

definition basename :: "path \<Rightarrow> path" where
  "basename p = rev (takeWhile (\<lambda>c. c \<noteq> CHR ''/'') (rev p))"

definition ends_with :: "string \<Rightarrow> string \<Rightarrow> bool" where
  "ends_with suffix s = starts_with (rev suffix) (rev s)"

definition under :: "path \<Rightarrow> path \<Rightarrow> bool" where
  "under d p = starts_with (d @ ''/'') p"

definition ancestors :: "path \<Rightarrow> path list" where
  "ancestors d = map (\<lambda>i. take i d) (filter (\<lambda>i. d ! i = CHR ''/'') [1..<length d])"

definition put_file :: "path \<Rightarrow> string \<Rightarrow> world \<Rightarrow> world" where
  "put_file p s w = w\<lparr>files := (p, s) # filter (\<lambda>(q, c). q \<noteq> p) (files w)\<rparr>"

text \<open>\<^verbatim>\<open>os.makedirs(d, exist_ok=True)\<close>.\<close>

definition os_makedirs :: "path \<Rightarrow> (unit, world) io" where
  "os_makedirs d w =
     (if d = [] then (Inl (no_such_file d), w)
      else if is_dir w d then (Inr (), w)
      else if is_file w d then (Inl (file_exists_error d), w)
      else if list_ex (is_file w) (ancestors d) then (Inl (not_a_directory d), w)
      else if disk_full w then (Inl (no_space d), w)
      else (Inr (), w\<lparr>dirs := d # filter (\<lambda>a. \<not> is_dir w a) (ancestors d) @ dirs w\<rparr>))"

text \<open>\<^verbatim>\<open>Path(p).mkdir(exist_ok=True)\<close>: the parent is not created.\<close>

definition path_mkdir :: "path \<Rightarrow> (unit, world) io" where
  "path_mkdir p w =
     (if is_dir w p then (Inr (), w)
      else if is_file w p then (Inl (file_exists_error p), w)
      else if dirname p \<noteq> [] \<and> \<not> is_dir w (dirname p) then (Inl (no_such_file p), w)
      else if disk_full w then (Inl (no_space p), w)
      else (Inr (), w\<lparr>dirs := p # dirs w\<rparr>))"

text \<open>\<^verbatim>\<open>with open(p, "w") as f: f.write(s)\<close>, and the same in mode \<^verbatim>\<open>"wb"\<close>.\<close>

definition write_file :: "path \<Rightarrow> string \<Rightarrow> (unit, world) io" where
  "write_file p s w =
     (if is_dir w p then (Inl (is_a_directory p), w)
      else if dirname p \<noteq> [] \<and> \<not> is_dir w (dirname p) then (Inl (no_such_file p), w)
      else if disk_full w then (Inl (no_space p), w)
      else (Inr (), put_file p s w))"

text \<open>\<^verbatim>\<open>shutil.copy2(src, dst)\<close>: into \<open>dst\<close> when \<open>dst\<close> is a directory.\<close>

definition copy_target :: "world \<Rightarrow> path \<Rightarrow> path \<Rightarrow> path" where
  "copy_target w src dst = (if is_dir w dst then dst @ ''/'' @ basename src else dst)"

definition copy2 :: "path \<Rightarrow> path \<Rightarrow> (unit, world) io" where
  "copy2 src dst w =
     (let target = copy_target w src dst
      in case read_file w src of
           None \<Rightarrow> (Inl (if is_dir w src then is_a_directory src else no_such_file src), w)
         | Some content \<Rightarrow>
             if src = target
             then (Inl (Exn ''SameFileError'' (quoted src @ '' and '' @ quoted target @ '' are the same file'')), w)
             else write_file target content w)"

text \<open>\<^verbatim>\<open>shutil.rmtree(d)\<close>, \<^verbatim>\<open>os.remove(p)\<close>, \<^verbatim>\<open>os.rmdir(d)\<close>, \<^verbatim>\<open>tempfile.mkdtemp()\<close>.\<close>

definition rmtree :: "path \<Rightarrow> (unit, world) io" where
  "rmtree d w =
     (if \<not> is_dir w d then (Inl (if is_file w d then not_a_directory d else no_such_file d), w)
      else (Inr (), w\<lparr>files := filter (\<lambda>(q, c). q \<noteq> d \<and> \<not> under d q) (files w),
                       dirs := filter (\<lambda>q. q \<noteq> d \<and> \<not> under d q) (dirs w)\<rparr>))"

definition os_remove :: "path \<Rightarrow> (unit, world) io" where
  "os_remove p w =
     (if \<not> is_file w p then (Inl (no_such_file p), w)
      else (Inr (), w\<lparr>files := filter (\<lambda>(q, c). q \<noteq> p) (files w)\<rparr>))"

definition os_rmdir :: "path \<Rightarrow> (unit, world) io" where
  "os_rmdir d w =
     (if \<not> is_dir w d then (Inl (no_such_file d), w)
      else if list_ex (\<lambda>(q, c). under d q) (files w) \<or> list_ex (under d) (dirs w)
      then (Inl (Exn ''OSError'' (''[Errno 39] Directory not empty: '' @ quoted d)), w)
      else (Inr (), w\<lparr>dirs := filter (\<lambda>q. q \<noteq> d) (dirs w)\<rparr>))"

definition mkdtemp :: "(path, world) io" where
  "mkdtemp w =
     (let p = ''/tmp/tmp'' @ show_nat (temps w)
      in if disk_full w then (Inl (no_space p), w)
         else (Inr p, w\<lparr>dirs := p # dirs w, temps := Suc (temps w)\<rparr>))"

text \<open>The loop over \<^verbatim>\<open>os.walk(video_dir)\<close> of \<^verbatim>\<open>render_scene\<close>: the first file below the
  directory whose name ends in \<^verbatim>\<open>.mp4\<close>.\<close>

definition walk_mp4 :: "world \<Rightarrow> path \<Rightarrow> path option" where
  "walk_mp4 w d = map_option fst (find (\<lambda>(q, c). under d q \<and> ends_with ''.mp4'' q) (files w))"

subsection \<open>Values parsed from JSON\<close>

text \<open>
  What \<^verbatim>\<open>json.loads\<close> returns: \<^verbatim>\<open>None\<close>, a bool, a number, a string, a list or a
  dict with string keys (an association list whose first entry for a key counts).
  The operators the code applies to such values fail as Python makes them fail.
\<close>

datatype json =
    JNull
  | JBool bool
  | JInt int
  | JFloat real
  | JStr string
  | JArr "json list"
  | JObj "(string \<times> json) list"

definition type_error :: "string \<Rightarrow> exn" where
  "type_error msg = Exn ''TypeError'' msg"

definition type_name :: "json \<Rightarrow> string" where
  "type_name v = (case v of JNull \<Rightarrow> ''NoneType'' | JBool b \<Rightarrow> ''bool'' | JInt i \<Rightarrow> ''int''
     | JFloat r \<Rightarrow> ''float'' | JStr s \<Rightarrow> ''str'' | JArr xs \<Rightarrow> ''list'' | JObj kvs \<Rightarrow> ''dict'')"

text \<open>\<^verbatim>\<open>key in v\<close> for a string \<open>key\<close>.\<close>

definition py_contains :: "string \<Rightarrow> json \<Rightarrow> exn + bool" where
  "py_contains key v =
     (case v of
        JObj kvs \<Rightarrow> Inr (map_of kvs key \<noteq> None)
      | JArr xs \<Rightarrow> Inr (JStr key \<in> set xs)
      | JStr s \<Rightarrow> Inr (contains key s)
      | other \<Rightarrow> Inl (type_error (''argument of type '' @ quoted (type_name v) @ '' is not iterable'')))"

text \<open>\<^verbatim>\<open>v[key]\<close> for a string \<open>key\<close>.\<close>

definition py_getitem :: "json \<Rightarrow> string \<Rightarrow> exn + json" where
  "py_getitem v key =
     (case v of
        JObj kvs \<Rightarrow> (case map_of kvs key of None \<Rightarrow> Inl (Exn ''KeyError'' (quoted key)) | Some x \<Rightarrow> Inr x)
      | JArr xs \<Rightarrow> Inl (type_error ''list indices must be integers or slices, not str'')
      | JStr s \<Rightarrow> Inl (type_error (''string indices must be integers, not '' @ quoted ''str''))
      | other \<Rightarrow> Inl (type_error (quoted (type_name v) @ '' object is not subscriptable'')))"

text \<open>\<^verbatim>\<open>for x in v\<close> (the elements in order), \<^verbatim>\<open>len(v)\<close> and whether \<^verbatim>\<open>v[:50]\<close> is
  defined.\<close>

definition py_iter :: "json \<Rightarrow> exn + json list" where
  "py_iter v =
     (case v of
        JArr xs \<Rightarrow> Inr xs
      | JStr s \<Rightarrow> Inr (map (\<lambda>c. JStr [c]) s)
      | JObj kvs \<Rightarrow> Inr (map JStr (remdups (map fst kvs)))
      | other \<Rightarrow> Inl (type_error (quoted (type_name v) @ '' object is not iterable'')))"

definition py_len :: "json \<Rightarrow> exn + nat" where
  "py_len v =
     (case v of
        JArr xs \<Rightarrow> Inr (length xs)
      | JStr s \<Rightarrow> Inr (length s)
      | JObj kvs \<Rightarrow> Inr (length (remdups (map fst kvs)))
      | other \<Rightarrow> Inl (type_error (''object of type '' @ quoted (type_name v) @ '' has no len()'')))"

definition py_slice :: "json \<Rightarrow> exn + unit" where
  "py_slice v =
     (case v of
        JArr xs \<Rightarrow> Inr ()
      | JStr s \<Rightarrow> Inr ()
      | JObj kvs \<Rightarrow> Inl (type_error (''unhashable type: '' @ quoted ''slice''))
      | other \<Rightarrow> Inl (type_error (quoted (type_name v) @ '' object is not subscriptable'')))"

subsection \<open>The collaborators\<close>

text \<open>
  Everything outside the repository is a field of the environment: whether the
  credentials are set, the generative endpoint (for a script: the user's prompt; for a
  scene: the four fields the prompt template embeds and the index; the result is the
  response text, or the exception of the call), \<^verbatim>\<open>json.loads\<close> and \<^verbatim>\<open>json.dumps\<close>,
  \<^verbatim>\<open>str\<close> of a value that is not a string, the speech endpoint (voice and text to status
  code and body), whether \<^verbatim>\<open>import manim\<close> succeeds, a sub-process run to its end
  (\<^verbatim>\<open>create_subprocess_exec\<close> with \<^verbatim>\<open>communicate\<close>: its return code, whether its error
  output decodes, and what it did to the file system) and \<^verbatim>\<open>os.path.abspath\<close>.
\<close>

record process =
  returncode :: int
  stderr_decodes :: bool

record env =
  gemini_api_key :: bool
  elevenlabs_api_key :: bool
  gemini_script :: "string \<Rightarrow> exn + string"
  gemini_code :: "json \<Rightarrow> json \<Rightarrow> json \<Rightarrow> json \<Rightarrow> nat \<Rightarrow> exn + string"
  json_loads :: "string \<Rightarrow> exn + json"
  json_dumps :: "json \<Rightarrow> string"
  str_of :: "json \<Rightarrow> string"
  tts_post :: "string option \<Rightarrow> json \<Rightarrow> exn + nat \<times> string"
  manim_installed :: bool
  run_process :: "string list \<Rightarrow> (process, world) io"
  abspath :: "path \<Rightarrow> path"

text \<open>An f-string field \<^verbatim>\<open>{v}\<close>.\<close>

definition format_value :: "env \<Rightarrow> json \<Rightarrow> string" where
  "format_value env v = (case v of JStr s \<Rightarrow> s | other \<Rightarrow> str_of env v)"

text \<open>\<^verbatim>\<open>stderr.decode()\<close> inside a logging call.\<close>

definition decode_stderr :: "process \<Rightarrow> (unit, world) io" where
  "decode_stderr p =
     (if stderr_decodes p then io_return ()
      else io_raise (Exn ''UnicodeDecodeError'' (quoted ''utf-8'' @ '' codec can't decode bytes'')))"

section \<open>The script generator\<close>

definition superscript_two :: string where
  "superscript_two = [CHR 0xB2]"

definition generate_mock_script :: "string \<Rightarrow> json" where
  "generate_mock_script prompt =
     JObj
      [(''title'', JStr (''Understanding '' @ prompt)),
       (''description'', JStr (''An educational video explaining '' @ prompt @ '' with visual animations.'')),
       (''scenes'', JArr
         [JObj
           [(''startTime'', JStr ''00:00''),
            (''endTime'', JStr ''00:10''),
            (''narration'', JStr (''Welcome to this video about '' @ prompt @ ''. We'll explore this concept with visual examples.'')),
            (''visualDescription'', JStr ''Show a title text with the prompt. Then animate it to move to the top of the screen. Create a circle in the center that pulses to draw attention.'')],
          JObj
           [(''startTime'', JStr ''00:10''),
            (''endTime'', JStr ''00:25''),
            (''narration'', JStr (''Let's start by understanding the basic principles of '' @ prompt @ ''. This concept is fundamental in mathematics.'')),
            (''visualDescription'', JStr (''Display a mathematical equation related to the topic. For example, if it's about circles, show the equation of a circle (x-h)'' @ superscript_two @ '' + (y-k)'' @ superscript_two @ '' = r'' @ superscript_two @ ''. Animate each part of the equation appearing one by one, highlighting each term as it's mentioned.''))],
          JObj
           [(''startTime'', JStr ''00:25''),
            (''endTime'', JStr ''00:40''),
            (''narration'', JStr (''Now, let's see how '' @ prompt @ '' works in practice with a visual example.'')),
            (''visualDescription'', JStr (''Create a coordinate system. Plot a function or shape related to the topic. If it's about the Pythagorean theorem, show a right triangle and label the sides a, b, and c. Then show a'' @ superscript_two @ '' + b'' @ superscript_two @ '' = c'' @ superscript_two @ '' with squares growing from each side of the triangle.''))],
          JObj
           [(''startTime'', JStr ''00:40''),
            (''endTime'', JStr ''00:55''),
            (''narration'', JStr (''To summarize what we've learned about '' @ prompt @ '', let's review the key points.'')),
            (''visualDescription'', JStr ''Create a bulleted list with 3 key points about the topic. Have each point appear one by one with a small animation. End with a final animation that brings back the main equation or diagram from earlier, but now with additional annotations or highlighting.'')]])]"

text \<open>\<^verbatim>\<open>all(key in v for key in keys)\<close>: the generator stops at the first key that is
  missing, and an exception of \<^verbatim>\<open>in\<close> leaves it.\<close>

fun all_keys_in :: "string list \<Rightarrow> json \<Rightarrow> exn + bool" where
  "all_keys_in [] v = Inr True"
| "all_keys_in (key # keys) v =
     (case py_contains key v of
        Inl e \<Rightarrow> Inl e
      | Inr present \<Rightarrow> if present then all_keys_in keys v else Inr False)"

definition required_keys :: "string list" where
  "required_keys = [''title'', ''description'', ''scenes'']"

definition scene_keys :: "string list" where
  "scene_keys = [''startTime'', ''endTime'', ''narration'', ''visualDescription'']"

fun validate_scenes :: "json list \<Rightarrow> exn + bool" where
  "validate_scenes [] = Inr True"
| "validate_scenes (scene # scenes) =
     (case all_keys_in scene_keys scene of
        Inl e \<Rightarrow> Inl e
      | Inr present \<Rightarrow> if \<not> present then Inr False else validate_scenes scenes)"

definition validate_script :: "json \<Rightarrow> exn + bool" where
  "validate_script script =
     (case script of
        JObj kvs \<Rightarrow>
          (case all_keys_in required_keys script of
             Inl e \<Rightarrow> Inl e
           | Inr present \<Rightarrow>
               if \<not> present then Inr False
               else (case py_getitem script ''scenes'' of
                       Inl e \<Rightarrow> Inl e
                     | Inr (JArr scenes) \<Rightarrow>
                         if length scenes = 0 then Inr False else validate_scenes scenes
                     | Inr other \<Rightarrow> Inr False))
      | other \<Rightarrow> Inr False)"

text \<open>The body of the \<^verbatim>\<open>try\<close> block of \<^verbatim>\<open>generate_script\<close>, and the function with its
  handler.\<close>

definition generate_script_body :: "env \<Rightarrow> string \<Rightarrow> exn + json" where
  "generate_script_body env prompt =
     (if \<not> gemini_api_key env then Inr (generate_mock_script prompt)
      else case gemini_script env prompt of
             Inl e \<Rightarrow> Inl e
           | Inr text_response \<Rightarrow>
               (case json_loads env (extract_payload ''json'' text_response) of
                  Inl e \<Rightarrow> Inl e
                | Inr script \<Rightarrow>
                    (case validate_script script of
                       Inl e \<Rightarrow> Inl e
                     | Inr valid \<Rightarrow>
                         if \<not> valid
                         then Inl (Exn ''ValueError'' ''Generated script does not have the expected structure'')
                         else Inr script)))"

definition generate_script :: "env \<Rightarrow> string \<Rightarrow> exn + json" where
  "generate_script env prompt =
     (case generate_script_body env prompt of
        Inl e \<Rightarrow> Inr (generate_mock_script prompt)
      | Inr script \<Rightarrow> Inr script)"

section \<open>The scene code generator\<close>

text \<open>
  The bullet of the summary template is U+2022, beyond the 8-bit range: it stands here
  as its three UTF-8 bytes, inside a string literal of the generated program.
\<close>

definition bullet :: string where
  "bullet = [CHR 0xE2, CHR 0x80, CHR 0xA2]"

definition title_scene :: "string \<Rightarrow> nat \<Rightarrow> string" where
  "title_scene narration index =
     text_lines
     [''from manim import *'',
      [],
      ''class Scene'' @ show_nat (index + 1) @ ''(Scene):'',
      ''    def construct(self):'',
      ''        # Title scene'',
      ''        title = Text('' @ dq @ narration @ dq @ '')'',
      ''        self.play(Write(title))'',
      ''        self.wait(1)'',
      ''        self.play(title.animate.to_edge(UP))'',
      ''        '',
      ''        # Create a circle that pulses'',
      ''        circle = Circle(radius=2, color=BLUE)'',
      ''        self.play(Create(circle))'',
      ''        '',
      ''        # Pulse animation'',
      ''        self.play(circle.animate.scale(1.2), rate_func=there_and_back)'',
      ''        self.play(circle.animate.scale(1.2), rate_func=there_and_back)'',
      ''        '',
      ''        self.wait(1)'']"

definition equation_scene :: "string \<Rightarrow> nat \<Rightarrow> string" where
  "equation_scene narration index =
     text_lines
     [''from manim import *'',
      [],
      ''class Scene'' @ show_nat (index + 1) @ ''(Scene):'',
      ''    def construct(self):'',
      ''        # Equation scene'',
      ''        title = Text('' @ dq @ narration @ dq @ '', font_size=24)'',
      ''        title.to_edge(UP)'',
      ''        self.add(title)'',
      ''        '',
      ''        # Create an equation'',
      ''        equation = MathTex('' @ dq @ ''x^2 + y^2 = r^2'' @ dq @ '')'',
      ''        '',
      ''        # Animate each part'',
      ''        self.play(Write(equation))'',
      ''        '',
      ''        # Highlight parts of the equation'',
      ''        self.play(equation.animate.set_color_by_tex('' @ dq @ ''x^2'' @ dq @ '', YELLOW))'',
      ''        self.wait(0.5)'',
      ''        self.play(equation.animate.set_color_by_tex('' @ dq @ ''y^2'' @ dq @ '', GREEN))'',
      ''        self.wait(0.5)'',
      ''        self.play(equation.animate.set_color_by_tex('' @ dq @ ''r^2'' @ dq @ '', RED))'',
      ''        '',
      ''        self.wait(1)'']"

definition visual_example_scene :: "string \<Rightarrow> nat \<Rightarrow> string" where
  "visual_example_scene narration index =
     text_lines
     [''from manim import *'',
      [],
      ''class Scene'' @ show_nat (index + 1) @ ''(Scene):'',
      ''    def construct(self):'',
      ''        # Visual example scene'',
      ''        title = Text('' @ dq @ narration @ dq @ '', font_size=24)'',
      ''        title.to_edge(UP)'',
      ''        self.add(title)'',
      ''        '',
      ''        # Create a coordinate system'',
      ''        axes = Axes('',
      ''            x_range=[-3, 3, 1],'',
      ''            y_range=[-3, 3, 1],'',
      ''            axis_config={'' @ dq @ ''color'' @ dq @ '': BLUE}'',
      ''        )'',
      ''        '',
      ''        # Add labels'',
      ''        x_label = axes.get_x_axis_label('' @ dq @ ''x'' @ dq @ '')'',
      ''        y_label = axes.get_y_axis_label('' @ dq @ ''y'' @ dq @ '')'',
      ''        '',
      ''        self.play(Create(axes), Write(x_label), Write(y_label))'',
      ''        '',
      ''        # Create a function graph'',
      ''        graph = axes.plot(lambda x: x**2, color=RED)'',
      ''        graph_label = MathTex('' @ dq @ ''f(x) = x^2'' @ dq @ '').next_to(graph, UP)'',
      ''        '',
      ''        self.play(Create(graph), Write(graph_label))'',
      ''        '',
      ''        # Show a point moving along the graph'',
      ''        dot = Dot(color=YELLOW)'',
      ''        dot.move_to(axes.c2p(-2, 4))'',
      ''        '',
      ''        self.play(FadeIn(dot))'',
      ''        '',
      ''        self.play('',
      ''            dot.animate.move_to(axes.c2p(2, 4)),'',
      ''            rate_func=lambda t: t,'',
      ''            run_time=3'',
      ''        )'',
      ''        '',
      ''        self.wait(1)'']"

definition summary_scene :: "string \<Rightarrow> nat \<Rightarrow> string" where
  "summary_scene narration index =
     text_lines
     [''from manim import *'',
      [],
      ''class Scene'' @ show_nat (index + 1) @ ''(Scene):'',
      ''    def construct(self):'',
      ''        # Summary scene'',
      ''        title = Text('' @ dq @ narration @ dq @ '', font_size=24)'',
      ''        title.to_edge(UP)'',
      ''        self.add(title)'',
      ''        '',
      ''        # Create bullet points'',
      ''        points = ['',
      ''            '' @ dq @ ''Key point 1 about the topic'' @ dq @ '','',
      ''            '' @ dq @ ''Key point 2 about the topic'' @ dq @ '','',
      ''            '' @ dq @ ''Key point 3 about the topic'' @ dq,
      ''        ]'',
      ''        '',
      ''        bullets = VGroup()'',
      ''        for i, point in enumerate(points):'',
      ''            bullet = Text('' @ dq @ bullet @ '' '' @ dq @ '' + point, font_size=24)'',
      ''            bullets.add(bullet)'',
      ''        '',
      ''        bullets.arrange(DOWN, aligned_edge=LEFT, buff=0.5)'',
      ''        bullets.next_to(title, DOWN, buff=1)'',
      ''        '',
      ''        # Animate each bullet point'',
      ''        for bullet in bullets:'',
      ''            self.play(Write(bullet))'',
      ''            self.wait(0.5)'',
      ''        '',
      ''        # Final animation'',
      ''        final_equation = MathTex('' @ dq @ ''E = mc^2'' @ dq @ '')'',
      ''        final_equation.next_to(bullets, DOWN, buff=1)'',
      ''        '',
      ''        self.play(Write(final_equation))'',
      ''        self.play(final_equation.animate.scale(1.5).set_color(YELLOW))'',
      ''        '',
      ''        self.wait(1)'']"

definition generate_mock_code :: "env \<Rightarrow> json \<Rightarrow> nat \<Rightarrow> exn + string" where
  "generate_mock_code env scene index =
     (case py_getitem scene ''narration'' of
        Inl e \<Rightarrow> Inl e
      | Inr narration \<Rightarrow>
          (case py_getitem scene ''visualDescription'' of
             Inl e \<Rightarrow> Inl e
           | Inr visual_desc \<Rightarrow>
               Inr (if index = 0 then title_scene (format_value env narration) index
                    else if index = 1 then equation_scene (format_value env narration) index
                    else if index = 2 then visual_example_scene (format_value env narration) index
                    else summary_scene (format_value env narration) index)))"

text \<open>The body of the \<^verbatim>\<open>try\<close> block of \<^verbatim>\<open>generate_manim_code\<close> (the prompt's f-string
  reads the four fields in this order), and the function with its handler.\<close>

definition generate_manim_code_body :: "env \<Rightarrow> json \<Rightarrow> nat \<Rightarrow> exn + string" where
  "generate_manim_code_body env scene index =
     (if \<not> gemini_api_key env then generate_mock_code env scene index
      else case py_getitem scene ''visualDescription'' of
             Inl e \<Rightarrow> Inl e
           | Inr visual \<Rightarrow>
      (case py_getitem scene ''startTime'' of
             Inl e \<Rightarrow> Inl e
           | Inr start_time \<Rightarrow>
      (case py_getitem scene ''endTime'' of
             Inl e \<Rightarrow> Inl e
           | Inr end_time \<Rightarrow>
      (case py_getitem scene ''narration'' of
             Inl e \<Rightarrow> Inl e
           | Inr narration \<Rightarrow>
      (case gemini_code env visual start_time end_time narration index of
             Inl e \<Rightarrow> Inl e
           | Inr text_response \<Rightarrow>
               Inr (ensure_proper_class_name (extract_payload ''python'' text_response) index))))))"

definition generate_manim_code :: "env \<Rightarrow> json \<Rightarrow> nat \<Rightarrow> exn + string" where
  "generate_manim_code env scene index =
     (case generate_manim_code_body env scene index of
        Inl e \<Rightarrow> generate_mock_code env scene index
      | Inr code \<Rightarrow> Inr code)"

section \<open>The speech wrapper\<close>

definition mock_audio_bytes :: string where
  "mock_audio_bytes =
     [CHR 0xFF, CHR 0xFB, CHR 0x90, CHR 0x44, CHR 0x00, CHR 0x00, CHR 0x00, CHR 0x00,
      CHR 0x00, CHR 0x00, CHR 0x00, CHR 0x00, CHR 0x00, CHR 0x00, CHR 0x00, CHR 0x00]"

definition generate_mock_audio :: "path \<Rightarrow> (path, world) io" where
  "generate_mock_audio output_path =
     io_try
       (io_bind (os_makedirs (dirname output_path)) (\<lambda>u.
        io_bind (write_file output_path mock_audio_bytes) (\<lambda>u.
        io_return output_path)))
       (\<lambda>e. io_return output_path)"

text \<open>\<^verbatim>\<open>generate_speech(text, output_path, voice_id)\<close>; the log line slices \<open>text\<close> first.\<close>

definition generate_speech :: "env \<Rightarrow> json \<Rightarrow> path \<Rightarrow> string option \<Rightarrow> (path, world) io" where
  "generate_speech env text output_path voice_id =
     io_try
       (case py_slice text of
          Inl e \<Rightarrow> io_raise e
        | Inr u \<Rightarrow>
            if \<not> elevenlabs_api_key env then generate_mock_audio output_path
            else (case tts_post env voice_id text of
                    Inl e \<Rightarrow> io_raise e
                  | Inr (status_code, content) \<Rightarrow>
                      if status_code = 200
                      then io_bind (os_makedirs (dirname output_path)) (\<lambda>u.
                           io_bind (write_file output_path content) (\<lambda>u.
                           io_return output_path))
                      else generate_mock_audio output_path))
       (\<lambda>e. generate_mock_audio output_path)"

section \<open>The renderer\<close>

definition mock_video_bytes :: string where
  "mock_video_bytes =
     [CHR 0x00, CHR 0x00, CHR 0x00, CHR 0x18, CHR 0x66, CHR 0x74, CHR 0x79, CHR 0x70,
      CHR 0x6D, CHR 0x70, CHR 0x34, CHR 0x32, CHR 0x00, CHR 0x00, CHR 0x00, CHR 0x00,
      CHR 0x6D, CHR 0x70, CHR 0x34, CHR 0x32, CHR 0x69, CHR 0x73, CHR 0x6F, CHR 0x6D]"

definition mock_video_cmd :: "path \<Rightarrow> string list" where
  "mock_video_cmd output_path =
     [''ffmpeg'', ''-y'', ''-f'', ''lavfi'', ''-i'', ''color=c=black:s=1280x720:d=5'',
      ''-c:v'', ''libx264'', ''-pix_fmt'', ''yuv420p'', output_path]"

text \<open>
  \<^verbatim>\<open>generate_mock_video\<close>: the inner \<^verbatim>\<open>try\<close> returns the path when the media tool exits
  with 0; otherwise, and after an exception of the call, the stub bytes are written.
\<close>

definition generate_mock_video :: "env \<Rightarrow> path \<Rightarrow> (path, world) io" where
  "generate_mock_video env output_path =
     io_try
       (io_bind (os_makedirs (dirname output_path)) (\<lambda>u.
        io_bind
          (io_try
             (io_bind (run_process env (mock_video_cmd output_path)) (\<lambda>process.
              io_return (returncode process = 0)))
             (\<lambda>e. io_return False))
          (\<lambda>created.
             if created then io_return output_path
             else io_bind (write_file output_path mock_video_bytes) (\<lambda>u.
                  io_return output_path))))
       (\<lambda>e. io_return output_path)"

definition quality_flag :: "string \<Rightarrow> string" where
  "quality_flag quality =
     (if quality = ''low'' then ''-ql'' else if quality = ''high'' then ''-qh'' else ''-qm'')"

definition manim_cmd :: "path \<Rightarrow> string \<Rightarrow> string \<Rightarrow> path \<Rightarrow> path \<Rightarrow> string list" where
  "manim_cmd temp_file_path class_name quality output_path temp_dir =
     [''python'', ''-m'', ''manim'', temp_file_path, class_name, quality_flag quality,
      ''-o'', replace_all ''.mp4'' [] (basename output_path), ''--media_dir'', temp_dir]"

text \<open>
  Line 109, \<^verbatim>\<open>shutil.copy2(scene_video, output_path)\<close>. The module does not import
  \<^verbatim>\<open>shutil\<close>; the only \<^verbatim>\<open>import shutil\<close> is the one in the \<^verbatim>\<open>finally\<close> block of
  \<^verbatim>\<open>render_scene\<close> itself. An import inside a function binds a local name, so
  \<^verbatim>\<open>shutil\<close> is a local variable of \<^verbatim>\<open>render_scene\<close> throughout its body, and at line
  109 nothing has been assigned to it yet: evaluating the name raises
  \<^verbatim>\<open>UnboundLocalError\<close> before any file is copied.
\<close>

definition unbound_shutil_copy2 :: "path \<Rightarrow> path \<Rightarrow> (unit, world) io" where
  "unbound_shutil_copy2 src dst =
     io_raise (Exn ''UnboundLocalError''
       (''cannot access local variable '' @ quoted ''shutil'' @ '' where it is not associated with a value''))"

text \<open>The \<^verbatim>\<open>finally\<close> block: by then \<^verbatim>\<open>import shutil\<close> has run.\<close>

definition cleanup_temp_dir :: "path \<Rightarrow> (unit, world) io" where
  "cleanup_temp_dir temp_dir = io_try (rmtree temp_dir) (\<lambda>e. io_return ())"

text \<open>The inner \<^verbatim>\<open>try\<close> block of \<^verbatim>\<open>render_scene\<close> (lines 66 to 112).\<close>

definition run_manim :: "env \<Rightarrow> path \<Rightarrow> string \<Rightarrow> string \<Rightarrow> path \<Rightarrow> path \<Rightarrow> (path, world) io" where
  "run_manim env temp_file_path class_name quality output_path temp_dir =
     io_bind (run_process env (manim_cmd temp_file_path class_name quality output_path temp_dir)) (\<lambda>process.
       if returncode process \<noteq> 0
       then io_bind (decode_stderr process) (\<lambda>u. generate_mock_video env output_path)
       else io_bind (io_get (\<lambda>w. walk_mp4 w (temp_dir @ ''/videos''))) (\<lambda>found.
            case found of
              None \<Rightarrow> generate_mock_video env output_path
            | Some scene_video \<Rightarrow>
                io_bind (unbound_shutil_copy2 scene_video output_path) (\<lambda>u.
                io_return output_path)))"

definition render_scene :: "env \<Rightarrow> string \<Rightarrow> path \<Rightarrow> string \<Rightarrow> (path, world) io" where
  "render_scene env scene_code output_path quality =
     io_try
       (if \<not> manim_installed env then generate_mock_video env output_path
        else io_bind mkdtemp (\<lambda>temp_dir.
             let temp_file_path = temp_dir @ ''/scene.py''
             in case extract_class_name scene_code of
                  None \<Rightarrow> generate_mock_video env output_path
                | Some class_name \<Rightarrow>
                    io_bind (write_file temp_file_path scene_code) (\<lambda>u.
                    io_bind (os_makedirs (dirname output_path)) (\<lambda>u.
                    io_finally
                      (io_try
                         (run_manim env temp_file_path class_name quality output_path temp_dir)
                         (\<lambda>e. generate_mock_video env output_path))
                      (cleanup_temp_dir temp_dir)))))
       (\<lambda>e. generate_mock_video env output_path)"

section \<open>The composer\<close>

definition fallback_copy :: "path \<Rightarrow> path \<Rightarrow> (path, world) io" where
  "fallback_copy source_path dest_path =
     io_try
       (io_bind (os_makedirs (dirname dest_path)) (\<lambda>u.
        io_bind (copy2 source_path dest_path) (\<lambda>u.
        io_return dest_path)))
       (\<lambda>e. io_return [])"

definition combine_cmd :: "path \<Rightarrow> path \<Rightarrow> path \<Rightarrow> string list" where
  "combine_cmd video_path audio_path output_path =
     [''ffmpeg'', ''-y'', ''-i'', video_path, ''-i'', audio_path, ''-c:v'', ''copy'',
      ''-c:a'', ''aac'', ''-map'', ''0:v:0'', ''-map'', ''1:a:0'', ''-shortest'', output_path]"

definition combine_audio_video :: "env \<Rightarrow> path \<Rightarrow> path \<Rightarrow> path \<Rightarrow> (path, world) io" where
  "combine_audio_video env video_path audio_path output_path =
     io_try
       (io_bind (os_makedirs (dirname output_path)) (\<lambda>u.
        io_try
          (io_bind (run_process env (combine_cmd video_path audio_path output_path)) (\<lambda>process.
             if returncode process = 0 then io_return output_path
             else io_bind (decode_stderr process) (\<lambda>u.
                  fallback_copy video_path output_path)))
          (\<lambda>e. fallback_copy video_path output_path)))
       (\<lambda>e. fallback_copy video_path output_path)"

definition concat_cmd :: "path \<Rightarrow> path \<Rightarrow> string list" where
  "concat_cmd list_file_path output_path =
     [''ffmpeg'', ''-y'', ''-f'', ''concat'', ''-safe'', ''0'', ''-i'', list_file_path,
      ''-c'', ''copy'', output_path]"

definition video_list :: "env \<Rightarrow> path list \<Rightarrow> string" where
  "video_list env video_paths =
     concat (map (\<lambda>video_path. ''file '' @ quoted (abspath env video_path) @ nl) video_paths)"

text \<open>The inner \<^verbatim>\<open>try\<close> block of \<^verbatim>\<open>concat_videos\<close> (lines 101 to 141), for a list whose
  first path is \<open>first\<close>.\<close>

definition run_concat :: "env \<Rightarrow> path \<Rightarrow> path list \<Rightarrow> path \<Rightarrow> (path, world) io" where
  "run_concat env first video_paths output_path =
     io_bind mkdtemp (\<lambda>temp_dir.
     let list_file_path = temp_dir @ ''/video_list.txt''
     in io_bind (write_file list_file_path (video_list env video_paths)) (\<lambda>u.
        io_bind (run_process env (concat_cmd list_file_path output_path)) (\<lambda>process.
        io_bind
          (io_try
             (io_bind (os_remove list_file_path) (\<lambda>u. os_rmdir temp_dir))
             (\<lambda>e. io_return ()))
          (\<lambda>u.
             if returncode process = 0 then io_return output_path
             else io_bind (decode_stderr process) (\<lambda>u.
                  fallback_copy first output_path)))))"

definition concat_videos :: "env \<Rightarrow> path list \<Rightarrow> path \<Rightarrow> (path, world) io" where
  "concat_videos env video_paths output_path =
     io_try
       (case video_paths of
          [] \<Rightarrow> io_return []
        | first # others \<Rightarrow>
            io_bind (os_makedirs (dirname output_path)) (\<lambda>u.
              if length video_paths = 1 then fallback_copy first output_path
              else io_try
                     (run_concat env first video_paths output_path)
                     (\<lambda>e. fallback_copy first output_path)))
       (\<lambda>e. case video_paths of
               [] \<Rightarrow> io_return []
             | first # others \<Rightarrow> fallback_copy first output_path)"

section \<open>The application: job registry and pipeline\<close>

text \<open>
  A status record is the dictionary stored in \<^verbatim>\<open>job_statuses\<close>; the request is
  \<^verbatim>\<open>VideoRequest\<close>. The state of the application is the file system and the registry.
  \<open>history\<close> is not a variable of the program: it lists, oldest first, every status
  record the program has stored, so that a property of a job's whole lifetime can be
  stated. The job identifier, \<^verbatim>\<open>job_id\<close> in the source, is written \<open>jid\<close>.
\<close>

record job_status =
  job_id :: string
  status :: string
  progress :: real
  message :: string
  script :: "json option"
  video_url :: "string option"
  error :: "string option"

record video_request =
  prompt :: string
  voice_id :: "string option"
  quality :: string

record state =
  fs :: world
  job_statuses :: "string \<rightharpoonup> job_status"
  history :: "job_status list"

definition in_fs :: "('a, world) io \<Rightarrow> ('a, state) io" where
  "in_fs m s = (case m (fs s) of (r, w) \<Rightarrow> (r, s\<lparr>fs := w\<rparr>))"

definition pure_io :: "exn + 'a \<Rightarrow> ('a, state) io" where
  "pure_io r s = (r, s)"

text \<open>\<^verbatim>\<open>job_statuses[jid] = record\<close> and \<^verbatim>\<open>job_statuses[jid][field] = value\<close>.\<close>

definition set_status :: "string \<Rightarrow> job_status \<Rightarrow> (unit, state) io" where
  "set_status jid r s =
     (Inr (), s\<lparr>job_statuses := (job_statuses s)(jid \<mapsto> r), history := history s @ [r]\<rparr>)"

definition set_field :: "string \<Rightarrow> (job_status \<Rightarrow> job_status) \<Rightarrow> (unit, state) io" where
  "set_field jid f s =
     (case job_statuses s jid of
        None \<Rightarrow> (Inl (Exn ''KeyError'' (quoted jid)), s)
      | Some r \<Rightarrow>
          (Inr (), s\<lparr>job_statuses := (job_statuses s)(jid \<mapsto> f r), history := history s @ [f r]\<rparr>))"

definition jobs_dir :: path where
  "jobs_dir = ''jobs''"

definition job_dir :: "string \<Rightarrow> path" where
  "job_dir jid = jobs_dir @ ''/'' @ jid"

definition script_dir :: "string \<Rightarrow> path" where
  "script_dir jid = job_dir jid @ ''/script''"

definition audio_dir :: "string \<Rightarrow> path" where
  "audio_dir jid = job_dir jid @ ''/audio''"

definition video_dir :: "string \<Rightarrow> path" where
  "video_dir jid = job_dir jid @ ''/video''"

definition output_dir :: "string \<Rightarrow> path" where
  "output_dir jid = job_dir jid @ ''/output''"

subsection \<open>\<^verbatim>\<open>generate_video_task\<close>\<close>

text \<open>The loop that creates the four directories (lines 97 and 98).\<close>

fun mkdir_all :: "path list \<Rightarrow> (unit, world) io" where
  "mkdir_all [] = io_return ()"
| "mkdir_all (dir_path # dir_paths) = io_bind (path_mkdir dir_path) (\<lambda>u. mkdir_all dir_paths)"

text \<open>The loops of stages 2 to 5, over \<^verbatim>\<open>enumerate\<close> with the index \<open>i\<close>.\<close>

fun code_loop :: "env \<Rightarrow> string \<Rightarrow> json list \<Rightarrow> nat \<Rightarrow> (string list, state) io" where
  "code_loop env jid [] i = io_return []"
| "code_loop env jid (scene # scenes) i =
     io_bind (pure_io (generate_manim_code env scene i)) (\<lambda>code.
     io_bind (in_fs (write_file (script_dir jid @ ''/scene_'' @ show_nat (i + 1) @ ''.py'') code)) (\<lambda>u.
     io_bind (code_loop env jid scenes (i + 1)) (\<lambda>scene_codes.
     io_return (code # scene_codes))))"

fun audio_loop :: "env \<Rightarrow> string \<Rightarrow> string option \<Rightarrow> json list \<Rightarrow> nat \<Rightarrow> (path list, state) io" where
  "audio_loop env jid voice [] i = io_return []"
| "audio_loop env jid voice (scene # scenes) i =
     (let audio_path = audio_dir jid @ ''/scene_'' @ show_nat (i + 1) @ ''.mp3''
      in io_bind (pure_io (py_getitem scene ''narration'')) (\<lambda>narration.
         io_bind (in_fs (generate_speech env narration audio_path voice)) (\<lambda>u.
         io_bind (audio_loop env jid voice scenes (i + 1)) (\<lambda>audio_paths.
         io_return (audio_path # audio_paths)))))"

fun video_loop :: "env \<Rightarrow> string \<Rightarrow> string \<Rightarrow> string list \<Rightarrow> nat \<Rightarrow> (path list, state) io" where
  "video_loop env jid q [] i = io_return []"
| "video_loop env jid q (code # scene_codes) i =
     (let video_path = video_dir jid @ ''/scene_'' @ show_nat (i + 1) @ ''.mp4''
      in io_bind (in_fs (render_scene env code video_path q)) (\<lambda>u.
         io_bind (video_loop env jid q scene_codes (i + 1)) (\<lambda>video_paths.
         io_return (video_path # video_paths))))"

definition py_index :: "'a list \<Rightarrow> nat \<Rightarrow> exn + 'a" where
  "py_index xs i =
     (if i < length xs then Inr (xs ! i) else Inl (Exn ''IndexError'' ''list index out of range''))"

fun combine_loop :: "env \<Rightarrow> string \<Rightarrow> path list \<Rightarrow> path list \<Rightarrow> nat list \<Rightarrow> (path list, state) io" where
  "combine_loop env jid video_paths audio_paths [] = io_return []"
| "combine_loop env jid video_paths audio_paths (i # is) =
     (let combined_path = output_dir jid @ ''/combined_scene_'' @ show_nat (i + 1) @ ''.mp4''
      in io_bind (pure_io (py_index video_paths i)) (\<lambda>video_path.
         io_bind (pure_io (py_index audio_paths i)) (\<lambda>audio_path.
         io_bind (in_fs (combine_audio_video env video_path audio_path combined_path)) (\<lambda>u.
         io_bind (combine_loop env jid video_paths audio_paths is) (\<lambda>combined_paths.
         io_return (combined_path # combined_paths))))))"

definition processing_status :: "string \<Rightarrow> job_status" where
  "processing_status jid =
     \<lparr>job_id = jid, status = ''processing'', progress = 0.05, message = ''Generating script...'',
      script = None, video_url = None, error = None\<rparr>"

text \<open>The \<^verbatim>\<open>try\<close> block (lines 101 to 177).\<close>

definition task_body :: "env \<Rightarrow> string \<Rightarrow> video_request \<Rightarrow> (unit, state) io" where
  "task_body env jid request =
     io_bind (set_status jid (processing_status jid)) (\<lambda>u.
     io_bind (pure_io (generate_script env (prompt request))) (\<lambda>script_v.
     io_bind (in_fs (write_file (script_dir jid @ ''/script.json'') (json_dumps env script_v))) (\<lambda>u.
     io_bind (set_field jid (\<lambda>r. r\<lparr>progress := 0.2\<rparr>)) (\<lambda>u.
     io_bind (set_field jid (\<lambda>r. r\<lparr>message := ''Generating Manim code...''\<rparr>)) (\<lambda>u.
     io_bind (set_field jid (\<lambda>r. r\<lparr>script := Some script_v\<rparr>)) (\<lambda>u.
     io_bind (pure_io (py_getitem script_v ''scenes'')) (\<lambda>scenes_v.
     io_bind (pure_io (py_iter scenes_v)) (\<lambda>scenes.
     io_bind (code_loop env jid scenes 0) (\<lambda>scene_codes.
     io_bind (set_field jid (\<lambda>r. r\<lparr>progress := 0.4\<rparr>)) (\<lambda>u.
     io_bind (set_field jid (\<lambda>r. r\<lparr>message := ''Generating audio...''\<rparr>)) (\<lambda>u.
     io_bind (pure_io (py_getitem script_v ''scenes'')) (\<lambda>scenes_v.
     io_bind (pure_io (py_iter scenes_v)) (\<lambda>scenes.
     io_bind (audio_loop env jid (voice_id request) scenes 0) (\<lambda>audio_paths.
     io_bind (set_field jid (\<lambda>r. r\<lparr>progress := 0.6\<rparr>)) (\<lambda>u.
     io_bind (set_field jid (\<lambda>r. r\<lparr>message := ''Rendering animations...''\<rparr>)) (\<lambda>u.
     io_bind (video_loop env jid (quality request) scene_codes 0) (\<lambda>video_paths.
     io_bind (set_field jid (\<lambda>r. r\<lparr>progress := 0.8\<rparr>)) (\<lambda>u.
     io_bind (set_field jid (\<lambda>r. r\<lparr>message := ''Composing final video...''\<rparr>)) (\<lambda>u.
     io_bind (pure_io (py_getitem script_v ''scenes'')) (\<lambda>scenes_v.
     io_bind (pure_io (py_len scenes_v)) (\<lambda>n.
     io_bind (combine_loop env jid video_paths audio_paths [0..<n]) (\<lambda>combined_paths.
     io_bind (in_fs (concat_videos env combined_paths (output_dir jid @ ''/final_video.mp4''))) (\<lambda>u.
     io_bind (set_field jid (\<lambda>r. r\<lparr>status := ''completed''\<rparr>)) (\<lambda>u.
     io_bind (set_field jid (\<lambda>r. r\<lparr>progress := 1.0\<rparr>)) (\<lambda>u.
     io_bind (set_field jid (\<lambda>r. r\<lparr>message := ''Video generation completed''\<rparr>)) (\<lambda>u.
     set_field jid (\<lambda>r. r\<lparr>video_url := Some (''/jobs/'' @ jid @ ''/output/final_video.mp4'')\<rparr>)
     ))))))))))))))))))))))))))"

text \<open>The handler (lines 179 to 183).\<close>

definition task_handler :: "string \<Rightarrow> exn \<Rightarrow> (unit, state) io" where
  "task_handler jid e =
     io_bind (set_field jid (\<lambda>r. r\<lparr>status := ''failed''\<rparr>)) (\<lambda>u.
     io_bind (set_field jid (\<lambda>r. r\<lparr>message := ''Video generation failed''\<rparr>)) (\<lambda>u.
     set_field jid (\<lambda>r. r\<lparr>error := Some (exn_str e)\<rparr>)))"

definition generate_video_task :: "env \<Rightarrow> string \<Rightarrow> video_request \<Rightarrow> (unit, state) io" where
  "generate_video_task env jid request =
     io_bind (in_fs (mkdir_all [script_dir jid, audio_dir jid, video_dir jid, output_dir jid])) (\<lambda>u.
     io_try (task_body env jid request) (task_handler jid))"

subsection \<open>The endpoints\<close>

definition queued_status :: "string \<Rightarrow> job_status" where
  "queued_status jid =
     \<lparr>job_id = jid, status = ''queued'', progress = 0.0, message = ''Job queued'',
      script = None, video_url = None, error = None\<rparr>"

text \<open>
  \<^verbatim>\<open>generate_video\<close>, for the identifier \<open>jid\<close> that \<^verbatim>\<open>uuid4\<close> returned. It schedules
  \<^verbatim>\<open>generate_video_task\<close>, which the framework runs after the response is sent;
  \<open>submit_and_run\<close> is the submission followed by that run.
\<close>

definition generate_video :: "string \<Rightarrow> video_request \<Rightarrow> (string \<times> string \<times> string, state) io" where
  "generate_video jid request =
     io_bind (in_fs (path_mkdir (job_dir jid))) (\<lambda>u.
     io_bind (set_status jid (queued_status jid)) (\<lambda>u.
     io_return (jid, ''queued'', ''Video generation job has been queued'')))"

definition submit_and_run :: "env \<Rightarrow> string \<Rightarrow> video_request \<Rightarrow> (unit, state) io" where
  "submit_and_run env jid request =
     io_bind (generate_video jid request) (\<lambda>response. generate_video_task env jid request)"

datatype http_exception = HTTPException (status_code: nat) (detail: string)

definition get_job_status :: "string \<Rightarrow> state \<Rightarrow> http_exception + job_status" where
  "get_job_status jid s =
     (case job_statuses s jid of
        None \<Rightarrow> Inl (HTTPException 404 (''Job with ID '' @ jid @ '' not found''))
      | Some r \<Rightarrow> Inr r)"


section \<open>Notions the theorems use, and example inputs\<close>

text \<open>
  \<open>yields_in A m\<close>: whenever \<open>m\<close> returns, its value is in \<open>A\<close>. \<open>returns_in A m\<close>: from
  every state \<open>m\<close> returns, never raises, and its value is in \<open>A\<close>.
\<close>

definition yields_in :: "'a set \<Rightarrow> ('a, 's) io \<Rightarrow> bool" where
  "yields_in A m = (\<forall>s x s'. m s = (Inr x, s') \<longrightarrow> x \<in> A)"

definition returns_in :: "'a set \<Rightarrow> ('a, 's) io \<Rightarrow> bool" where
  "returns_in A m = (\<forall>s. \<exists>x s'. m s = (Inr x, s') \<and> x \<in> A)"

text \<open>
  \<open>frames m\<close>: \<open>m\<close> leaves the registry and its history as they are. \<open>recorded jid s\<close>:
  the registry holds a record for \<open>jid\<close>, and it is the record stored last.
  \<open>keeps P m\<close>: \<open>m\<close> started where \<open>P\<close> holds ends, returning or raising, where \<open>P\<close>
  holds.
\<close>

definition frames :: "('a, state) io \<Rightarrow> bool" where
  "frames m = (\<forall>s r s'. m s = (r, s') \<longrightarrow> job_statuses s' = job_statuses s \<and> history s' = history s)"



text \<open>
  \<open>hoare P m Q E\<close>: \<open>m\<close> started where \<open>P\<close> holds ends where \<open>Q\<close> holds of its value when
  it returns, and where \<open>E\<close> holds when it raises. \<open>level jid h0 st ps s\<close>: since the
  history was \<open>h0\<close> at least one record has been stored, the last of them is the record
  of \<open>jid\<close> and has the status \<open>st\<close>, and the progress values stored, repetitions
  dropped, are \<open>ps\<close>. \<open>interrupted\<close>: the job is processing, at one of the five levels
  below completion.
\<close>

definition hoare :: "(state \<Rightarrow> bool) \<Rightarrow> ('a, state) io \<Rightarrow> ('a \<Rightarrow> state \<Rightarrow> bool) \<Rightarrow> (state \<Rightarrow> bool) \<Rightarrow> bool" where
  "hoare P m Q E = (\<forall>s r s'. P s \<longrightarrow> m s = (r, s') \<longrightarrow> (case r of Inl e \<Rightarrow> E s' | Inr x \<Rightarrow> Q x s'))"

definition level :: "string \<Rightarrow> job_status list \<Rightarrow> string \<Rightarrow> real list \<Rightarrow> state \<Rightarrow> bool" where
  "level jid h0 st ps s =
     (\<exists>t. history s = h0 @ t \<and> t \<noteq> [] \<and> job_statuses s jid = Some (last t) \<and>
          status (last t) = st \<and> remdups_adj (map progress t) = ps)"

definition levels_before_completion :: "real list list" where
  "levels_before_completion =
     [[0.05], [0.05, 0.2], [0.05, 0.2, 0.4], [0.05, 0.2, 0.4, 0.6], [0.05, 0.2, 0.4, 0.6, 0.8]]"

definition interrupted :: "string \<Rightarrow> job_status list \<Rightarrow> state \<Rightarrow> bool" where
  "interrupted jid h0 s = list_ex (\<lambda>ps. level jid h0 ''processing'' ps s) levels_before_completion"

text \<open>A response with a label-free block before a block labelled \<^verbatim>\<open>json\<close>.\<close>

definition two_blocks :: string where
  "two_blocks = fence @ nl @ ''A'' @ nl @ fence @ nl @ fence @ ''json'' @ nl @ ''B'' @ nl @ fence"

text \<open>
  An environment with no credential, no rendering engine and no media tool (every
  sub-process fails to start), an empty file system, and one that holds a single
  composed clip.
\<close>

definition no_tools :: env where
  "no_tools =
     \<lparr>gemini_api_key = False, elevenlabs_api_key = False,
      gemini_script = (\<lambda>p. Inl (Exn ''RuntimeError'' ''no credential'')),
      gemini_code = (\<lambda>visual start_time end_time narration i. Inl (Exn ''RuntimeError'' ''no credential'')),
      json_loads = (\<lambda>t. Inl (Exn ''JSONDecodeError'' ''Expecting value'')),
      json_dumps = (\<lambda>v. ''{}''),
      str_of = (\<lambda>v. ''None''),
      tts_post = (\<lambda>voice t. Inl (Exn ''ConnectionError'' ''no route to host'')),
      manim_installed = False,
      run_process = (\<lambda>cmd. io_raise (no_such_file (hd cmd))),
      abspath = (\<lambda>p. ''/srv/'' @ p)\<rparr>"

definition empty_world :: world where
  "empty_world = \<lparr>files = [], dirs = [], disk_full = False, temps = 0\<rparr>"



text \<open>
  An environment whose rendering engine is installed and renders: the engine process
  writes a clip below the media directory it is given (the tenth word of the command)
  and exits with 0; the media tool is still missing.
\<close>

definition rendering :: env where
  "rendering =
     no_tools\<lparr>manim_installed := True,
       run_process := (\<lambda>cmd w.
         if hd cmd = ''python''
         then (Inr \<lparr>returncode = 0, stderr_decodes = True\<rparr>,
               put_file (cmd ! 9 @ ''/videos/scene/480p15/scene_1.mp4'') ''rendered'' w)
         else (Inl (no_such_file (hd cmd)), w))\<rparr>"

text \<open>Program texts: with a class declaration, with two blanks after \<^verbatim>\<open>class\<close>, with
  the class name \<^verbatim>\<open>Scene12\<close>, and with no class at all.\<close>

definition scene_program :: string where
  "scene_program = ''class Scene1(Scene): pass''"

definition spaced_program :: string where
  "spaced_program = ''class  Intro(Scene): pass''"

definition numbered_program :: string where
  "numbered_program = ''class Scene12(Scene): pass''"

definition plain_program :: string where
  "plain_program = ''print(1)''"

text \<open>
  A parsed response whose one scene is a list of the four key names, and an
  environment with the credential set whose endpoint answers with it.
\<close>

definition list_scene_script :: json where
  "list_scene_script =
     JObj [(''title'', JStr ''T''), (''description'', JStr ''D''),
           (''scenes'', JArr [JArr [JStr ''startTime'', JStr ''endTime'', JStr ''narration'',
                                    JStr ''visualDescription'']])]"

definition odd_gemini :: env where
  "odd_gemini =
     no_tools\<lparr>gemini_api_key := True,
       gemini_script := (\<lambda>p. Inr ''{...}''),
       json_loads := (\<lambda>t. Inr list_scene_script)\<rparr>"

text \<open>A request, and the state in which its job \<^verbatim>\<open>j1\<close> has been accepted and the
  device has since filled up.\<close>

definition circles_request :: video_request where
  "circles_request = \<lparr>prompt = ''circles'', voice_id = None, quality = ''low''\<rparr>"

definition queued_disk_full :: state where
  "queued_disk_full =
     \<lparr>fs = \<lparr>files = [], dirs = [''jobs'', ''jobs/j1''], disk_full = True, temps = 0\<rparr>,
      job_statuses = [''j1'' \<mapsto> queued_status ''j1''],
      history = [queued_status ''j1'']\<rparr>"

text \<open>The state in which job \<^verbatim>\<open>j1\<close> has been accepted, and the same state once the task
  has made the four directories.\<close>

definition queued_state :: state where
  "queued_state =
     \<lparr>fs = \<lparr>files = [], dirs = [''jobs'', ''jobs/j1''], disk_full = False, temps = 0\<rparr>,
      job_statuses = [''j1'' \<mapsto> queued_status ''j1''],
      history = [queued_status ''j1'']\<rparr>"

definition workspace_ready :: state where
  "workspace_ready =
     \<lparr>fs = \<lparr>files = [],
             dirs = [''jobs/j1/output'', ''jobs/j1/video'', ''jobs/j1/audio'', ''jobs/j1/script'',
                     ''jobs'', ''jobs/j1''],
             disk_full = False, temps = 0\<rparr>,
      job_statuses = [''j1'' \<mapsto> queued_status ''j1''],
      history = [queued_status ''j1'']\<rparr>"

section \<open>The fenced block extraction\<close>

lemma starts_with_iff: "starts_with p s \<longleftrightarrow> (\<exists>r. s = p @ r)"
  by (induction p s rule: starts_with.induct) auto

lemma split_first_Some:
  "split_first old s = Some (b, a) \<Longrightarrow> s = b @ old @ a"
proof (induction s arbitrary: b)
  case Nil
  then show ?case by (auto split: if_splits)
next
  case (Cons c cs)
  show ?case
  proof (cases "starts_with old (c # cs)")
    case True
    then obtain r where r: "c # cs = old @ r" by (auto simp: starts_with_iff)
    from True Cons.prems have "b = []" and "a = drop (length old) (c # cs)" by auto
    with r show ?thesis by simp
  next
    case False
    with Cons.prems obtain b' where "split_first old cs = Some (b', a)" and "b = c # b'"
      by (auto split: option.splits)
    with Cons.IH show ?thesis by auto
  qed
qed

lemma split_first_None: "split_first old s = None \<longleftrightarrow> \<not> contains old s"
  by (induction s) (auto split: option.splits)

lemma contains_iff: "contains old s \<longleftrightarrow> (\<exists>b a. s = b @ old @ a)"
proof (induction s)
  case Nil
  then show ?case by auto
next
  case (Cons c cs)
  show ?case
  proof
    assume "contains old (c # cs)"
    then consider "starts_with old (c # cs)" | "contains old cs" by auto
    then show "\<exists>b a. c # cs = b @ old @ a"
    proof cases
      case 1
      then obtain r where "c # cs = old @ r" by (auto simp: starts_with_iff)
      then have "c # cs = [] @ old @ r" by simp
      then show ?thesis by blast
    next
      case 2
      with Cons.IH obtain b a where "cs = b @ old @ a" by auto
      then have "c # cs = (c # b) @ old @ a" by simp
      then show ?thesis by blast
    qed
  next
    assume "\<exists>b a. c # cs = b @ old @ a"
    then obtain b a where ba: "c # cs = b @ old @ a" by auto
    show "contains old (c # cs)"
    proof (cases b)
      case Nil
      with ba have "starts_with old (c # cs)" unfolding starts_with_iff by auto
      then show ?thesis by simp
    next
      case (Cons x b')
      with ba have "cs = b' @ old @ a" by simp
      with Cons.IH show ?thesis by auto
    qed
  qed
qed

lemma split_first_before:
  "split_first old s = Some (b, a) \<Longrightarrow> old \<noteq> [] \<Longrightarrow> \<not> contains old b"
proof (induction s arbitrary: b)
  case Nil
  then show ?case by (auto split: if_splits)
next
  case (Cons c cs)
  show ?case
  proof (cases "starts_with old (c # cs)")
    case True
    with Cons.prems show ?thesis by auto
  next
    case False
    with Cons.prems obtain b' where b': "split_first old cs = Some (b', a)" "b = c # b'"
      by (auto split: option.splits)
    then have cs: "cs = b' @ old @ a" by (auto dest: split_first_Some)
    have "\<not> starts_with old (c # b')"
    proof
      assume "starts_with old (c # b')"
      then obtain r where "c # b' = old @ r" by (auto simp: starts_with_iff)
      then have "c # cs = old @ (r @ old @ a)" using cs by simp
      then have "starts_with old (c # cs)" unfolding starts_with_iff by blast
      with False show False by simp
    qed
    moreover from b' Cons.IH Cons.prems have "\<not> contains old b'" by auto
    ultimately show ?thesis using b' by auto
  qed
qed

lemma contains_appendD1: "contains (x @ y) s \<Longrightarrow> contains x s"
proof -
  assume "contains (x @ y) s"
  then obtain b a where "s = b @ (x @ y) @ a" unfolding contains_iff by blast
  then have "s = b @ x @ (y @ a)" by simp
  then show ?thesis unfolding contains_iff by blast
qed

lemma fence_search_SomeD:
  assumes "fence_search label t = Some body"
  shows "\<exists>pre post. t = pre @ fence @ label @ nl @ body @ nl @ fence @ post \<and>
           \<not> contains (fence @ label @ nl) pre \<and> \<not> contains (nl @ fence) body"
proof -
  from assms obtain pre rest post where
    1: "split_first (fence @ label @ nl) t = Some (pre, rest)" and
    2: "split_first (nl @ fence) rest = Some (body, post)"
    by (auto simp: fence_search_def split: option.splits)
  have ne1: "fence @ label @ nl \<noteq> []" and ne2: "nl @ fence \<noteq> []" by (simp_all add: nl_def)
  from 1 have "t = pre @ (fence @ label @ nl) @ rest" by (rule split_first_Some)
  moreover from 2 have "rest = body @ (nl @ fence) @ post" by (rule split_first_Some)
  moreover from 1 ne1 have "\<not> contains (fence @ label @ nl) pre" by (rule split_first_before)
  moreover from 2 ne2 have "\<not> contains (nl @ fence) body" by (rule split_first_before)
  ultimately show ?thesis by auto
qed

lemma fence_search_no_fence: "\<not> contains fence t \<Longrightarrow> fence_search label t = None"
proof -
  assume "\<not> contains fence t"
  then have "\<not> contains (fence @ (label @ nl)) t" by (blast dest: contains_appendD1)
  then have "split_first (fence @ label @ nl) t = None" by (simp add: split_first_None)
  then show ?thesis by (simp add: fence_search_def)
qed

text \<open>
  C7, as amended. The labelled form is searched first, over the whole response, and the
  label-free form only when no labelled block matches. The payload is the content of
  the first block of the form that matched: what stands between the first opening line
  of that form and the first closing line after it, whether or not another fenced block
  comes earlier in the response. A response with no fence in it is taken as it is.
\<close>

theorem extract_payload_labelled_first:
  "(\<forall>body. fence_search label t = Some body \<longrightarrow>
      extract_payload label t = body \<and>
      (\<exists>pre post. t = pre @ fence @ label @ nl @ body @ nl @ fence @ post \<and>
         \<not> contains (fence @ label @ nl) pre \<and> \<not> contains (nl @ fence) body)) \<and>
   (\<forall>body. fence_search label t = None \<and> fence_search [] t = Some body \<longrightarrow>
      extract_payload label t = body \<and>
      (\<exists>pre post. t = pre @ fence @ nl @ body @ nl @ fence @ post \<and>
         \<not> contains (fence @ nl) pre \<and> \<not> contains (nl @ fence) body)) \<and>
   (\<not> contains fence t \<longrightarrow> extract_payload label t = t)"
proof (intro conjI allI impI)
  fix body assume "fence_search label t = Some body"
  then show "extract_payload label t = body" by (simp add: extract_payload_def)
next
  fix body assume "fence_search label t = Some body"
  then show "\<exists>pre post. t = pre @ fence @ label @ nl @ body @ nl @ fence @ post \<and>
         \<not> contains (fence @ label @ nl) pre \<and> \<not> contains (nl @ fence) body"
    by (rule fence_search_SomeD)
next
  fix body assume "fence_search label t = None \<and> fence_search [] t = Some body"
  then show "extract_payload label t = body" by (simp add: extract_payload_def)
next
  fix body assume "fence_search label t = None \<and> fence_search [] t = Some body"
  then have "fence_search [] t = Some body" by simp
  from fence_search_SomeD [OF this]
  show "\<exists>pre post. t = pre @ fence @ nl @ body @ nl @ fence @ post \<and>
         \<not> contains (fence @ nl) pre \<and> \<not> contains (nl @ fence) body" by simp
next
  assume "\<not> contains fence t"
  then show "extract_payload label t = t"
    by (simp add: extract_payload_def fence_search_no_fence)
qed

text \<open>
  C7 as stated fails on \<open>two_blocks\<close>, where a label-free block comes before the labelled
  one: the code extracts the content of the labelled block, and trying the label-free
  form first gives the content of the first fenced block.
\<close>

theorem extract_payload_counterexample:
  "extract_payload ''json'' two_blocks = ''B'' \<and> spec_extract_payload ''json'' two_blocks = ''A''"
  by (simp add: extract_payload_def spec_extract_payload_def fence_search_def two_blocks_def fence_def nl_def)

text \<open>The three cases of the amended C7 on concrete responses.\<close>

theorem extract_payload_labelled_first_witness:
  "extract_payload ''json'' two_blocks = ''B'' \<and>
   extract_payload ''python'' two_blocks = ''A'' \<and>
   extract_payload ''json'' ''{}'' = ''{}''"
proof -
  have 1: "fence_search ''json'' two_blocks = Some ''B''"
    by (simp add: fence_search_def two_blocks_def fence_def nl_def)
  have 2: "fence_search ''python'' two_blocks = None \<and> fence_search [] two_blocks = Some ''A''"
    by (simp add: fence_search_def two_blocks_def fence_def nl_def)
  have 3: "\<not> contains fence ''{}''"
    by (simp add: fence_def)
  from 1 extract_payload_labelled_first [where label = "''json''" and t = two_blocks]
  have "extract_payload ''json'' two_blocks = ''B''" by blast
  moreover from 2 extract_payload_labelled_first [where label = "''python''" and t = two_blocks]
  have "extract_payload ''python'' two_blocks = ''A''" by blast
  moreover from 3 extract_payload_labelled_first [where label = "''json''" and t = "''{}''"]
  have "extract_payload ''json'' ''{}'' = ''{}''" by blast
  ultimately show ?thesis by simp
qed

section \<open>The wrappers never raise\<close>

lemma returns_inD: "returns_in A m \<Longrightarrow> \<exists>x s'. m s = (Inr x, s') \<and> x \<in> A"
  by (simp add: returns_in_def)

lemma returns_yields: "returns_in A m \<Longrightarrow> yields_in A m"
  unfolding yields_in_def returns_in_def by (metis Inr_inject prod.inject)

lemma yields_return: "x \<in> A \<Longrightarrow> yields_in A (io_return x)"
  by (simp add: yields_in_def io_return_def)

lemma returns_return: "x \<in> A \<Longrightarrow> returns_in A (io_return x)"
  by (simp add: returns_in_def io_return_def)


lemma yields_bind: "(\<And>x. yields_in A (f x)) \<Longrightarrow> yields_in A (io_bind m f)"
  unfolding yields_in_def io_bind_def
  by (auto split: prod.splits sum.splits)

lemma returns_try:
  assumes "yields_in A m" and "\<And>e. returns_in A (h e)"
  shows "returns_in A (io_try m h)"
  unfolding returns_in_def
proof
  fix s
  obtain r s' where ms: "m s = (r, s')" by (cases "m s")
  show "\<exists>x s''. io_try m h s = (Inr x, s'') \<and> x \<in> A"
  proof (cases r)
    case (Inl e)
    from returns_inD [OF assms(2) [of e], of s'] obtain x s'' where "h e s' = (Inr x, s'')" "x \<in> A"
      by blast
    with ms Inl show ?thesis by (simp add: io_try_def)
  next
    case (Inr x)
    with ms assms(1) have "x \<in> A" by (auto simp: yields_in_def)
    with ms Inr show ?thesis by (simp add: io_try_def)
  qed
qed

lemma yields_try:
  assumes "yields_in A m" and "\<And>e. yields_in A (h e)"
  shows "yields_in A (io_try m h)"
  using assms unfolding yields_in_def io_try_def
  by (auto split: prod.splits sum.splits)


lemma yields_get_bind: "(\<And>x. yields_in A (g x)) \<Longrightarrow> yields_in A (io_bind (io_get f) g)"
  by (rule yields_bind)

lemma yields_if:
  "(c \<Longrightarrow> yields_in A m) \<Longrightarrow> (\<not> c \<Longrightarrow> yields_in A n) \<Longrightarrow> yields_in A (if c then m else n)"
  by simp




lemma yields_case_list:
  "(xs = [] \<Longrightarrow> yields_in A f) \<Longrightarrow> (\<And>y ys. xs = y # ys \<Longrightarrow> yields_in A (g y ys)) \<Longrightarrow>
   yields_in A (case xs of [] \<Rightarrow> f | y # ys \<Rightarrow> g y ys)"
  by (cases xs) simp_all

lemma returns_case_list:
  "(xs = [] \<Longrightarrow> returns_in A f) \<Longrightarrow> (\<And>y ys. xs = y # ys \<Longrightarrow> returns_in A (g y ys)) \<Longrightarrow>
   returns_in A (case xs of [] \<Rightarrow> f | y # ys \<Rightarrow> g y ys)"
  by (cases xs) simp_all

lemma yields_let: "yields_in A (f x) \<Longrightarrow> yields_in A (let y = x in f y)"
  by simp



lemma generate_mock_video_returns: "returns_in {output_path} (generate_mock_video env output_path)"
  unfolding generate_mock_video_def
  by (intro returns_try yields_bind yields_return returns_return yields_if) simp_all

lemma cleanup_temp_dir_returns: "returns_in UNIV (cleanup_temp_dir d)"
  unfolding cleanup_temp_dir_def
  by (intro returns_try returns_return) (simp_all add: yields_in_def)



lemma fallback_copy_returns: "returns_in {dest_path, []} (fallback_copy source_path dest_path)"
  unfolding fallback_copy_def
  by (intro returns_try yields_bind yields_return returns_return) simp_all

lemma combine_audio_video_returns:
  "returns_in {output_path, []} (combine_audio_video env video_path audio_path output_path)"
  unfolding combine_audio_video_def
  by (intro returns_try fallback_copy_returns yields_bind yields_if yields_return
        returns_yields [OF fallback_copy_returns] returns_yields [OF returns_try])
     simp_all

lemma run_concat_yields:
  "yields_in {output_path, []} (run_concat env first video_paths output_path)"
  unfolding run_concat_def
  by (intro yields_bind yields_let yields_if yields_return returns_yields [OF fallback_copy_returns])
     simp_all

lemma concat_videos_returns:
  "returns_in {output_path, []} (concat_videos env video_paths output_path)"
  unfolding concat_videos_def
  by (intro returns_try returns_case_list yields_case_list yields_return returns_return yields_bind
        yields_if returns_yields [OF fallback_copy_returns] returns_yields [OF returns_try]
        run_concat_yields fallback_copy_returns)
     simp_all











section \<open>The composer: one path and no path\<close>













section \<open>The registry: delete and get\<close>





section \<open>The renderer\<close>

text \<open>
  C3 does not hold of the code. When the engine is installed, a class name is found,
  the temporary file and the output directory are made, the engine exits with 0 and a
  clip is found below the media directory, line 109 raises \<^verbatim>\<open>UnboundLocalError\<close>; the
  handler of the inner \<^verbatim>\<open>try\<close> then produces the placeholder video, and the rendered
  clip is deleted with the temporary directory.
\<close>

theorem render_scene_falls_back_after_successful_render:
  assumes "manim_installed env"
    and "mkdtemp w = (Inr temp_dir, w1)"
    and "extract_class_name code = Some class_name"
    and "write_file (temp_dir @ ''/scene.py'') code w1 = (Inr (), w2)"
    and "os_makedirs (dirname out) w2 = (Inr (), w3)"
    and "run_process env (manim_cmd (temp_dir @ ''/scene.py'') class_name q out temp_dir) w3 = (Inr p, w4)"
    and "returncode p = 0"
    and "walk_mp4 w4 (temp_dir @ ''/videos'') = Some scene_video"
  shows "render_scene env code out q w =
           io_finally (generate_mock_video env out) (cleanup_temp_dir temp_dir) w4"
proof -
  have run: "run_manim env (temp_dir @ ''/scene.py'') class_name q out temp_dir w3 =
      (Inl (Exn ''UnboundLocalError''
         (''cannot access local variable '' @ quoted ''shutil'' @ '' where it is not associated with a value'')), w4)"
    using assms(6,7,8)
    by (simp add: run_manim_def io_bind_def io_get_def unbound_shutil_copy2_def io_raise_def)
  obtain r w5 where gmv: "generate_mock_video env out w4 = (r, w5)"
    by (cases "generate_mock_video env out w4")
  from returns_inD [OF generate_mock_video_returns, of env out w4] gmv
  have r: "r = Inr out" by auto
  obtain u w6 where cl: "cleanup_temp_dir temp_dir w5 = (Inr u, w6)"
    using returns_inD [OF cleanup_temp_dir_returns, of temp_dir w5] by auto
  have "render_scene env code out q w = (Inr out, w6)"
    using assms(1-5) run gmv r cl
    by (simp add: render_scene_def io_try_def io_bind_def io_finally_def Let_def)
  moreover have "io_finally (generate_mock_video env out) (cleanup_temp_dir temp_dir) w4 = (Inr out, w6)"
    using gmv r cl by (simp add: io_finally_def)
  ultimately show ?thesis by simp
qed

lemma scene_program_class: "extract_class_name scene_program = Some ''Scene1''"
  by (simp add: extract_class_name_def scene_program_def class_match_at_def is_space_def is_word_def)

text \<open>C3 on \<open>rendering\<close>: the output path holds the stub bytes, not the rendered clip.\<close>

theorem render_scene_falls_back_after_successful_render_witness:
  "render_scene rendering scene_program ''jobs/j/video/scene_1.mp4'' ''low'' empty_world =
     (Inr ''jobs/j/video/scene_1.mp4'',
      \<lparr>files = [(''jobs/j/video/scene_1.mp4'', mock_video_bytes)],
       dirs = [''jobs/j/video'', ''jobs'', ''jobs/j''], disk_full = False, temps = 1\<rparr>)"
proof -
  let ?w1 = "\<lparr>files = [], dirs = [''/tmp/tmp0''], disk_full = False, temps = 1\<rparr>"
  let ?w2 = "\<lparr>files = [(''/tmp/tmp0/scene.py'', scene_program)], dirs = [''/tmp/tmp0''],
      disk_full = False, temps = 1\<rparr>"
  let ?w3 = "\<lparr>files = [(''/tmp/tmp0/scene.py'', scene_program)],
      dirs = [''jobs/j/video'', ''jobs'', ''jobs/j'', ''/tmp/tmp0''], disk_full = False, temps = 1\<rparr>"
  let ?w4 = "\<lparr>files = [(''/tmp/tmp0/videos/scene/480p15/scene_1.mp4'', ''rendered''),
        (''/tmp/tmp0/scene.py'', scene_program)],
      dirs = [''jobs/j/video'', ''jobs'', ''jobs/j'', ''/tmp/tmp0''], disk_full = False, temps = 1\<rparr>"
  have 1: "manim_installed rendering" by (simp add: rendering_def)
  have 2: "mkdtemp empty_world = (Inr ''/tmp/tmp0'', ?w1)"
    by (simp add: mkdtemp_def empty_world_def digit_char_def Let_def show_nat.simps)
  have 4: "write_file (''/tmp/tmp0'' @ ''/scene.py'') scene_program ?w1 = (Inr (), ?w2)"
    by (simp add: write_file_def is_dir_def dirname_def put_file_def)
  have 5: "os_makedirs (dirname ''jobs/j/video/scene_1.mp4'') ?w2 = (Inr (), ?w3)"
    by (simp add: os_makedirs_def dirname_def is_dir_def is_file_def ancestors_def)
  have 6: "run_process rendering
      (manim_cmd (''/tmp/tmp0'' @ ''/scene.py'') ''Scene1'' ''low'' ''jobs/j/video/scene_1.mp4'' ''/tmp/tmp0'') ?w3 =
      (Inr \<lparr>returncode = 0, stderr_decodes = True\<rparr>, ?w4)"
    by (simp add: rendering_def manim_cmd_def put_file_def)
  have 7: "returncode \<lparr>returncode = 0, stderr_decodes = True\<rparr> = 0" by simp
  have 8: "walk_mp4 ?w4 (''/tmp/tmp0'' @ ''/videos'') = Some ''/tmp/tmp0/videos/scene/480p15/scene_1.mp4''"
    by (simp add: walk_mp4_def under_def ends_with_def)
  have 9: "io_finally (generate_mock_video rendering ''jobs/j/video/scene_1.mp4'') (cleanup_temp_dir ''/tmp/tmp0'') ?w4 =
      (Inr ''jobs/j/video/scene_1.mp4'',
       \<lparr>files = [(''jobs/j/video/scene_1.mp4'', mock_video_bytes)],
        dirs = [''jobs/j/video'', ''jobs'', ''jobs/j''], disk_full = False, temps = 1\<rparr>)"
    by (simp add: io_finally_def generate_mock_video_def io_try_def io_bind_def io_return_def
          os_makedirs_def dirname_def is_dir_def is_file_def rendering_def mock_video_cmd_def
          write_file_def put_file_def cleanup_temp_dir_def rmtree_def under_def)
  from render_scene_falls_back_after_successful_render [OF 1 2 scene_program_class 4 5 6 7 8] 9
  show ?thesis by simp
qed

text \<open>
  C10 does not hold of the code. The temporary directory is made at line 42 and removed
  only by the \<^verbatim>\<open>finally\<close> block that starts at line 118; the return at line 49, taken when
  no class name is found, comes before the \<^verbatim>\<open>try\<close> that block belongs to. On that path
  \<^verbatim>\<open>render_scene\<close> is \<^verbatim>\<open>generate_mock_video\<close> run in the state that holds the new directory,
  and nothing removes it.
\<close>

theorem render_scene_leaves_temp_dir_without_class:
  assumes "manim_installed env" and "mkdtemp w = (Inr temp_dir, w1)"
    and "extract_class_name code = None"
  shows "render_scene env code out q w = generate_mock_video env out w1 \<and> is_dir w1 temp_dir"
proof
  from returns_inD [OF generate_mock_video_returns, of env out w1]
  obtain w2 where "generate_mock_video env out w1 = (Inr out, w2)" by auto
  with assms show "render_scene env code out q w = generate_mock_video env out w1"
    by (simp add: render_scene_def io_try_def io_bind_def Let_def)
  from assms(2) show "is_dir w1 temp_dir"
    by (auto simp: mkdtemp_def is_dir_def Let_def split: if_splits)
qed

text \<open>C10 on \<open>rendering\<close> and a program with no class: the directory is there at exit.\<close>

theorem render_scene_leaves_temp_dir_without_class_witness:
  "render_scene rendering plain_program ''jobs/j/video/scene_1.mp4'' ''low'' empty_world =
     (Inr ''jobs/j/video/scene_1.mp4'',
      \<lparr>files = [(''jobs/j/video/scene_1.mp4'', mock_video_bytes)],
       dirs = [''jobs/j/video'', ''jobs'', ''jobs/j'', ''/tmp/tmp0''], disk_full = False, temps = 1\<rparr>) \<and>
   is_dir \<lparr>files = [(''jobs/j/video/scene_1.mp4'', mock_video_bytes)],
       dirs = [''jobs/j/video'', ''jobs'', ''jobs/j'', ''/tmp/tmp0''], disk_full = False, temps = 1\<rparr>
     ''/tmp/tmp0''"
proof -
  let ?w1 = "\<lparr>files = [], dirs = [''/tmp/tmp0''], disk_full = False, temps = 1\<rparr>"
  have 1: "manim_installed rendering" by (simp add: rendering_def)
  have 2: "mkdtemp empty_world = (Inr ''/tmp/tmp0'', ?w1)"
    by (simp add: mkdtemp_def empty_world_def digit_char_def Let_def show_nat.simps)
  have 3: "extract_class_name plain_program = None"
    by (simp add: extract_class_name_def plain_program_def class_match_at_def)
  have 4: "generate_mock_video rendering ''jobs/j/video/scene_1.mp4'' ?w1 =
     (Inr ''jobs/j/video/scene_1.mp4'',
      \<lparr>files = [(''jobs/j/video/scene_1.mp4'', mock_video_bytes)],
       dirs = [''jobs/j/video'', ''jobs'', ''jobs/j'', ''/tmp/tmp0''], disk_full = False, temps = 1\<rparr>)"
    by (simp add: generate_mock_video_def io_try_def io_bind_def io_return_def
          os_makedirs_def dirname_def is_dir_def is_file_def ancestors_def rendering_def
          mock_video_cmd_def write_file_def put_file_def)
  from render_scene_leaves_temp_dir_without_class [OF 1 2 3, of "''jobs/j/video/scene_1.mp4''" "''low''"] 4
  show ?thesis by (simp add: is_dir_def)
qed

section \<open>The class name of a scene program\<close>

text \<open>
  When the pattern finds no class declaration, what the generative call returned is
  dropped: the result is the fallback program of the index, whose class is named
  \<^verbatim>\<open>Scene\<close> followed by the index plus one.
\<close>

lemma digit_char_word: "d < 10 \<Longrightarrow> is_word (digit_char d)"
proof -
  assume "d < 10"
  then have "d = 0 \<or> d = 1 \<or> d = 2 \<or> d = 3 \<or> d = 4 \<or> d = 5 \<or> d = 6 \<or> d = 7 \<or> d = 8 \<or> d = 9"
    by arith
  then show ?thesis
    by (elim disjE) (simp_all add: digit_char_def is_word_def)
qed

lemma show_nat_word: "list_all is_word (show_nat n)"
proof (induction n rule: show_nat.induct)
  case (1 n)
  show ?case
  proof (cases "n < 10")
    case True
    then show ?thesis by (subst show_nat.simps) (simp add: digit_char_word)
  next
    case False
    with 1 have "list_all is_word (show_nat (n div 10))" by simp
    moreover have "is_word (digit_char (n mod 10))" by (rule digit_char_word) simp
    ultimately show ?thesis using False by (subst show_nat.simps) simp
  qed
qed

lemma word_not_space: "is_word c \<Longrightarrow> \<not> is_space c"
  by (auto simp: is_word_def is_space_def Let_def)

lemma takeWhile_all: "list_all P xs \<Longrightarrow> takeWhile P (xs @ ys) = xs @ takeWhile P ys"
  by (induction xs) auto

lemma dropWhile_all: "list_all P xs \<Longrightarrow> dropWhile P (xs @ ys) = dropWhile P ys"
  by (induction xs) auto

lemma class_match_at_canonical:
  assumes "list_all is_word name" and "name \<noteq> []"
  shows "class_match_at (''class '' @ name @ ''(Scene)'' @ rest) = Some name"
proof -
  from assms obtain c cs where name: "name = c # cs" and c: "\<not> is_space c"
    by (cases name) (auto dest: word_not_space)
  have paren: "\<not> is_word CHR ''(''" "\<not> is_space CHR ''(''" "\<not> is_space CHR ''S''"
      "\<not> is_space CHR '')''" "is_space CHR '' ''"
    by (simp_all add: is_word_def is_space_def)
  let ?r1 = "'' '' @ name @ ''(Scene)'' @ rest"
  let ?r2 = "name @ ''(Scene)'' @ rest"
  have s: "starts_with ''class'' (''class '' @ name @ ''(Scene)'' @ rest)" by simp
  have r1: "drop 5 (''class '' @ name @ ''(Scene)'' @ rest) = ?r1" by simp
  have t1: "takeWhile is_space ?r1 \<noteq> []" using paren by simp
  have r2: "dropWhile is_space ?r1 = ?r2" using paren c name by simp
  have n: "takeWhile is_word ?r2 = name"
    using assms(1) paren by (simp add: takeWhile_all)
  have r3: "dropWhile is_space (dropWhile is_word ?r2) = ''(Scene)'' @ rest"
    using assms(1) paren by (simp add: dropWhile_all)
  have r4: "dropWhile is_space (drop 1 (''(Scene)'' @ rest)) = ''Scene)'' @ rest"
    using paren by simp
  have r5: "starts_with '')'' (dropWhile is_space (drop 5 (''Scene)'' @ rest)))"
    using paren by simp
  show ?thesis
    unfolding class_match_at_def Let_def r1 r2 n r3 r4
    using s t1 r5 assms(2) by simp
qed

lemma class_search_skip:
  "list_all (\<lambda>c. c \<noteq> CHR ''c'') p \<Longrightarrow> class_search (p @ s) = class_search s"
  by (induction p) (auto simp: class_match_at_def)

lemma fallback_program_class:
  "extract_class_name (fallback_program i) = Some (''Scene'' @ show_nat (i + 1))"
proof -
  let ?name = "''Scene'' @ show_nat (i + 1)"
  have w: "list_all is_word ?name"
    using show_nat_word [of "i + 1"] by (simp add: is_word_def)
  obtain rest where f: "fallback_program i =
      (''from manim import *'' @ nl @ nl) @ (''class '' @ ?name @ ''(Scene)'' @ rest)"
    by (simp add: fallback_program_def text_lines_def)
  have "class_search (fallback_program i) = class_search (''class '' @ ?name @ ''(Scene)'' @ rest)"
    unfolding f by (rule class_search_skip) (simp add: nl_def)
  also have "\<dots> = Some ?name"
    using class_match_at_canonical [OF w, of rest] by simp
  finally show ?thesis by (simp add: extract_class_name_def)
qed

lemma ensure_proper_class_name_no_class:
  "class_search code = None \<Longrightarrow>
   ensure_proper_class_name code i = fallback_program i \<and>
   extract_class_name (ensure_proper_class_name code i) = Some (''Scene'' @ show_nat (i + 1))"
  by (simp add: ensure_proper_class_name_def fallback_program_class)

text \<open>
  C6 does not hold of the code. The pattern accepts any blanks after \<^verbatim>\<open>class\<close> and around
  the brackets, but the replacement looks for the literal text \<^verbatim>\<open>class Name(Scene)\<close>: a
  declaration written with two blanks is returned as it is, and its class name does not
  embed the scene number. The test for the number is a substring test: the name
  \<^verbatim>\<open>Scene12\<close> contains \<^verbatim>\<open>Scene1\<close>, so the same program is returned unchanged for index 0
  and for index 11, with one class name for two scenes.
\<close>

theorem ensure_proper_class_name_misses:
  "ensure_proper_class_name spaced_program 0 = spaced_program \<and>
   extract_class_name (ensure_proper_class_name spaced_program 0) = Some ''Intro'' \<and>
   \<not> contains (show_nat (0 + 1)) ''Intro'' \<and>
   ensure_proper_class_name numbered_program 0 = numbered_program \<and>
   ensure_proper_class_name numbered_program 11 = numbered_program \<and>
   extract_class_name numbered_program = Some ''Scene12''"
  by (simp add: ensure_proper_class_name_def extract_class_name_def spaced_program_def
        numbered_program_def class_match_at_def is_space_def is_word_def digit_char_def
        show_nat.simps replace_all.simps)

section \<open>The script generator\<close>

text \<open>
  \<^verbatim>\<open>generate_script\<close> returns the mock script, or else the parsed response, and then the
  response has passed \<^verbatim>\<open>validate_script\<close>. The mock script passes it and has four scenes.
  A value that passes is a dictionary with a title, a description and a non-empty list
  of scenes, each of which has passed the test of the four keys; a scene that is a
  dictionary passes that test exactly when it has the four keys.
\<close>

lemma generate_script_mock_or_validated:
  "generate_script env p = Inr (generate_mock_script p) \<or>
   (\<exists>t v. gemini_api_key env \<and> gemini_script env p = Inr t \<and>
      json_loads env (extract_payload ''json'' t) = Inr v \<and> validate_script v = Inr True \<and>
      generate_script env p = Inr v)"
  by (auto simp: generate_script_def generate_script_body_def split: sum.splits if_splits)

lemma mock_script_valid: "validate_script (generate_mock_script p) = Inr True"
  by (simp add: validate_script_def generate_mock_script_def required_keys_def scene_keys_def
        py_contains_def py_getitem_def)

lemma mock_script_four_scenes:
  "\<exists>scenes. py_getitem (generate_mock_script p) ''scenes'' = Inr (JArr scenes) \<and> length scenes = 4"
  by (simp add: generate_mock_script_def py_getitem_def)

lemma all_keys_in_object:
  "all_keys_in keys (JObj kvs) = Inr (list_all (\<lambda>k. map_of kvs k \<noteq> None) keys)"
  by (induction keys) (auto simp: py_contains_def)

lemma validate_scenes_True:
  "validate_scenes scenes = Inr True \<Longrightarrow> list_all (\<lambda>scene. all_keys_in scene_keys scene = Inr True) scenes"
  by (induction scenes) (auto split: sum.splits if_splits)

lemma validate_script_True:
  assumes "validate_script v = Inr True"
  shows "\<exists>kvs scenes. v = JObj kvs \<and> map_of kvs ''title'' \<noteq> None \<and>
           map_of kvs ''description'' \<noteq> None \<and> map_of kvs ''scenes'' = Some (JArr scenes) \<and>
           scenes \<noteq> [] \<and> list_all (\<lambda>scene. all_keys_in scene_keys scene = Inr True) scenes"
proof -
  from assms obtain kvs where v: "v = JObj kvs"
    by (cases v) (simp_all add: validate_script_def)
  from assms v have keys: "list_all (\<lambda>k. map_of kvs k \<noteq> None) required_keys"
    by (auto simp: validate_script_def all_keys_in_object split: if_splits)
  from assms v keys obtain scenes where s: "map_of kvs ''scenes'' = Some (JArr scenes)"
      "scenes \<noteq> []" "validate_scenes scenes = Inr True"
    by (auto simp: validate_script_def all_keys_in_object py_getitem_def
             split: if_splits option.splits json.splits)
  from keys have "map_of kvs ''title'' \<noteq> None" "map_of kvs ''description'' \<noteq> None"
    by (simp_all add: required_keys_def)
  with v s validate_scenes_True [OF s(3)] show ?thesis by blast
qed

lemma object_scene_accepted_iff:
  "all_keys_in scene_keys (JObj kvs) = Inr True \<longleftrightarrow>
   map_of kvs ''startTime'' \<noteq> None \<and> map_of kvs ''endTime'' \<noteq> None \<and>
   map_of kvs ''narration'' \<noteq> None \<and> map_of kvs ''visualDescription'' \<noteq> None"
  by (simp add: all_keys_in_object scene_keys_def)

text \<open>
  C4 does not hold of the code. \<^verbatim>\<open>validate_script\<close> tests \<^verbatim>\<open>key in scene\<close> without testing
  that the scene is a dictionary: for a scene that is a list, \<^verbatim>\<open>in\<close> is membership. A
  response whose scene is the list of the four key names carries none of the four
  fields, yet it passes the validation, and \<^verbatim>\<open>generate_script\<close> returns it and not the
  mock script; reading \<^verbatim>\<open>narration\<close> from that scene raises.
\<close>

theorem validate_script_accepts_list_scene:
  "validate_script list_scene_script = Inr True \<and>
   generate_script odd_gemini ''circles'' = Inr list_scene_script \<and>
   list_scene_script \<noteq> generate_mock_script ''circles'' \<and>
   py_getitem (JArr [JStr ''startTime'', JStr ''endTime'', JStr ''narration'', JStr ''visualDescription''])
     ''narration'' = Inl (type_error ''list indices must be integers or slices, not str'')"
  by (simp add: validate_script_def list_scene_script_def required_keys_def scene_keys_def
        py_contains_def py_getitem_def generate_script_def generate_script_body_def odd_gemini_def
        no_tools_def generate_mock_script_def)

section \<open>The pipeline\<close>

subsection \<open>The directories are made before the \<^verbatim>\<open>try\<close> block\<close>

text \<open>
  C1 does not hold of the code. The four directories are made before the \<^verbatim>\<open>try\<close> block
  (lines 97 and 98). When that fails, the exception leaves \<^verbatim>\<open>generate_video_task\<close> past
  the handler: no status record is written, and the job stays as the submission left
  it, queued with progress 0, neither completed nor failed.
\<close>

theorem task_raises_when_setup_fails:
  assumes "mkdir_all [script_dir jid, audio_dir jid, video_dir jid, output_dir jid] (fs s) = (Inl e, w)"
  shows "generate_video_task env jid request s = (Inl e, s\<lparr>fs := w\<rparr>) \<and>
         job_statuses (s\<lparr>fs := w\<rparr>) = job_statuses s \<and> history (s\<lparr>fs := w\<rparr>) = history s"
  using assms by (simp add: generate_video_task_def io_bind_def in_fs_def)

text \<open>C1 on an accepted job whose device has filled up since the submission.\<close>

theorem task_raises_when_setup_fails_witness:
  "generate_video_task no_tools ''j1'' circles_request queued_disk_full =
     (Inl (no_space ''jobs/j1/script''), queued_disk_full) \<and>
   get_job_status ''j1'' queued_disk_full = Inr (queued_status ''j1'') \<and>
   status (queued_status ''j1'') = ''queued'' \<and> progress (queued_status ''j1'') = 0"
proof -
  have "mkdir_all [script_dir ''j1'', audio_dir ''j1'', video_dir ''j1'', output_dir ''j1'']
      (fs queued_disk_full) = (Inl (no_space ''jobs/j1/script''), fs queued_disk_full)"
    by (simp add: queued_disk_full_def io_bind_def path_mkdir_def is_dir_def is_file_def
          script_dir_def job_dir_def jobs_dir_def dirname_def)
  from task_raises_when_setup_fails [OF this, of no_tools circles_request]
  show ?thesis
    by (simp add: get_job_status_def queued_disk_full_def queued_status_def)
qed

subsection \<open>The handler\<close>

lemma frames_return: "frames (io_return x)"
  by (simp add: frames_def io_return_def)

lemma frames_pure_io: "frames (pure_io r)"
  by (simp add: frames_def pure_io_def)

lemma frames_in_fs: "frames (in_fs m)"
  by (auto simp: frames_def in_fs_def split: prod.splits)

lemma frames_bind: "frames m \<Longrightarrow> (\<And>x. frames (f x)) \<Longrightarrow> frames (io_bind m f)"
  unfolding frames_def io_bind_def
proof (intro allI impI)
  fix s r s'
  assume m: "\<forall>s r s'. m s = (r, s') \<longrightarrow> job_statuses s' = job_statuses s \<and> history s' = history s"
    and f: "\<And>x. \<forall>s r s'. f x s = (r, s') \<longrightarrow> job_statuses s' = job_statuses s \<and> history s' = history s"
    and run: "(case m s of (Inl e, s') \<Rightarrow> (Inl e, s') | (Inr x, s') \<Rightarrow> f x s') = (r, s')"
  obtain r1 s1 where ms: "m s = (r1, s1)" by (cases "m s")
  with m have s1: "job_statuses s1 = job_statuses s \<and> history s1 = history s" by blast
  show "job_statuses s' = job_statuses s \<and> history s' = history s"
  proof (cases r1)
    case (Inl e)
    with ms run s1 show ?thesis by simp
  next
    case (Inr x)
    with ms run have "f x s1 = (r, s')" by simp
    with f [of x] have "job_statuses s' = job_statuses s1 \<and> history s' = history s1" by blast
    with s1 show ?thesis by simp
  qed
qed

lemma frames_let: "frames (f x) \<Longrightarrow> frames (let y = x in f y)"
  by simp

lemma frames_code_loop: "frames (code_loop env jid scenes i)"
  by (induction scenes arbitrary: i)
     (auto intro!: frames_return frames_bind frames_pure_io frames_in_fs)

lemma frames_audio_loop: "frames (audio_loop env jid voice scenes i)"
  by (induction scenes arbitrary: i)
     (auto simp: Let_def intro!: frames_return frames_bind frames_pure_io frames_in_fs)

lemma frames_video_loop: "frames (video_loop env jid q codes i)"
  by (induction codes arbitrary: i)
     (auto simp: Let_def intro!: frames_return frames_bind frames_pure_io frames_in_fs)

lemma frames_combine_loop: "frames (combine_loop env jid video_paths audio_paths is)"
  by (induction "is")
     (auto simp: Let_def intro!: frames_return frames_bind frames_pure_io frames_in_fs)











lemma task_handler_result:
  assumes "job_statuses s1 jid = Some r"
  shows "task_handler jid e s1 =
    (Inr (), s1\<lparr>job_statuses := (job_statuses s1)(jid \<mapsto>
                   r\<lparr>status := ''failed'', message := ''Video generation failed'', error := Some (exn_str e)\<rparr>),
               history := history s1 @
                 [r\<lparr>status := ''failed''\<rparr>,
                  r\<lparr>status := ''failed'', message := ''Video generation failed''\<rparr>,
                  r\<lparr>status := ''failed'', message := ''Video generation failed'', error := Some (exn_str e)\<rparr>]\<rparr>)"
  using assms by (simp add: task_handler_def io_bind_def set_field_def)




lemma workspace_setup:
  "in_fs (mkdir_all [script_dir ''j1'', audio_dir ''j1'', video_dir ''j1'', output_dir ''j1''])
     queued_state = (Inr (), workspace_ready)"
  by (simp add: in_fs_def queued_state_def workspace_ready_def io_bind_def io_return_def
        path_mkdir_def is_dir_def is_file_def script_dir_def audio_dir_def video_dir_def
        output_dir_def job_dir_def jobs_dir_def dirname_def)



subsection \<open>The progress of a job whose directories are made\<close>

lemma remdups_adj_snoc:
  "xs \<noteq> [] \<Longrightarrow> remdups_adj (xs @ [x]) = (if last xs = x then remdups_adj xs else remdups_adj xs @ [x])"
  by (induction xs rule: remdups_adj.induct) auto

lemma sorted_of_remdups_adj: "sorted (remdups_adj xs) \<Longrightarrow> sorted xs"
  by (induction xs rule: remdups_adj.induct) (auto split: if_splits)

lemma hoare_bind:
  assumes "hoare P m Q' E" and "\<And>x. hoare (Q' x) (f x) Q E"
  shows "hoare P (io_bind m f) Q E"
  unfolding hoare_def
proof (intro allI impI)
  fix s r s'
  assume P: "P s" and run: "io_bind m f s = (r, s')"
  obtain r1 s1 where ms: "m s = (r1, s1)" by (cases "m s")
  show "case r of Inl e \<Rightarrow> E s' | Inr x \<Rightarrow> Q x s'"
  proof (cases r1)
    case (Inl e)
    with ms run have "r = Inl e" "s' = s1" by (simp_all add: io_bind_def)
    moreover from assms(1) P ms Inl have "E s1" by (auto simp: hoare_def)
    ultimately show ?thesis by simp
  next
    case (Inr x)
    with assms(1) P ms have "Q' x s1" by (auto simp: hoare_def)
    moreover from ms Inr run have "f x s1 = (r, s')" by (simp add: io_bind_def)
    ultimately show ?thesis using assms(2) [of x] unfolding hoare_def by blast
  qed
qed

lemma level_frame:
  "job_statuses s' = job_statuses s \<Longrightarrow> history s' = history s \<Longrightarrow>
   level jid h0 st ps s \<Longrightarrow> level jid h0 st ps s'"
  by (simp add: level_def)

lemma hoare_frames:
  assumes "frames m" and "ps \<in> set levels_before_completion"
  shows "hoare (level jid h0 ''processing'' ps) m (\<lambda>x. level jid h0 ''processing'' ps) (interrupted jid h0)"
  unfolding hoare_def
proof (intro allI impI)
  fix s r s'
  assume P: "level jid h0 ''processing'' ps s" and run: "m s = (r, s')"
  with assms(1) have "job_statuses s' = job_statuses s" "history s' = history s"
    unfolding frames_def by blast+
  with P have L: "level jid h0 ''processing'' ps s'" by (blast intro: level_frame)
  with assms(2) have "interrupted jid h0 s'" by (auto simp: interrupted_def list_ex_iff)
  with L show "case r of Inl e \<Rightarrow> interrupted jid h0 s' | Inr x \<Rightarrow> level jid h0 ''processing'' ps s'"
    by (cases r) simp_all
qed

lemma hoare_set_field:
  assumes "\<And>t. t \<noteq> [] \<Longrightarrow> status (last t) = st \<Longrightarrow> remdups_adj (map progress t) = ps \<Longrightarrow>
     status (f (last t)) = st' \<and> remdups_adj (map progress (t @ [f (last t)])) = ps'"
  shows "hoare (level jid h0 st ps) (set_field jid f) (\<lambda>x. level jid h0 st' ps') E"
  unfolding hoare_def
proof (intro allI impI)
  fix s r s'
  assume "level jid h0 st ps s" and run: "set_field jid f s = (r, s')"
  then obtain t where t: "history s = h0 @ t" "t \<noteq> []" "job_statuses s jid = Some (last t)"
      "status (last t) = st" "remdups_adj (map progress t) = ps"
    by (auto simp: level_def)
  from t(3) run have r: "r = Inr ()"
    and s': "s' = s\<lparr>job_statuses := (job_statuses s)(jid \<mapsto> f (last t)), history := history s @ [f (last t)]\<rparr>"
    by (simp_all add: set_field_def)
  from assms [OF t(2,4,5)] t(1) s' have "level jid h0 st' ps' s'"
    unfolding level_def by (intro exI [of _ "t @ [f (last t)]"]) simp
  with r show "case r of Inl e \<Rightarrow> E s' | Inr x \<Rightarrow> level jid h0 st' ps' s'" by simp
qed

lemma hoare_same_progress:
  assumes "\<And>r. progress (f r) = progress r" and "\<And>r. status (f r) = status r"
  shows "hoare (level jid h0 st ps) (set_field jid f) (\<lambda>x. level jid h0 st ps) E"
  by (rule hoare_set_field) (simp add: remdups_adj_snoc last_map assms)

lemma hoare_message: "hoare (level jid h0 st ps) (set_field jid (\<lambda>r. r\<lparr>message := m\<rparr>)) (\<lambda>x. level jid h0 st ps) E"
  by (rule hoare_same_progress) simp_all

lemma hoare_script: "hoare (level jid h0 st ps) (set_field jid (\<lambda>r. r\<lparr>script := m\<rparr>)) (\<lambda>x. level jid h0 st ps) E"
  by (rule hoare_same_progress) simp_all

lemma hoare_video_url: "hoare (level jid h0 st ps) (set_field jid (\<lambda>r. r\<lparr>video_url := m\<rparr>)) (\<lambda>x. level jid h0 st ps) E"
  by (rule hoare_same_progress) simp_all

lemma hoare_status:
  "hoare (level jid h0 st ps) (set_field jid (\<lambda>r. r\<lparr>status := st'\<rparr>)) (\<lambda>x. level jid h0 st' ps) E"
  by (rule hoare_set_field) (simp add: remdups_adj_snoc last_map)

lemma hoare_progress:
  assumes "ps \<noteq> []" and "last ps \<noteq> p"
  shows "hoare (level jid h0 st ps) (set_field jid (\<lambda>r. r\<lparr>progress := p\<rparr>)) (\<lambda>x. level jid h0 st (ps @ [p])) E"
proof (rule hoare_set_field)
  fix t :: "job_status list"
  assume t: "t \<noteq> []" "status (last t) = st" "remdups_adj (map progress t) = ps"
  from t(1) have "last (map progress t) = progress (last t)" by (simp add: last_map)
  moreover from t(3) have "last ps = last (map progress t)" by (metis last_remdups_adj)
  ultimately have "progress (last t) \<noteq> p" using assms(2) by simp
  with t show "status ((last t)\<lparr>progress := p\<rparr>) = st \<and>
      remdups_adj (map progress (t @ [(last t)\<lparr>progress := p\<rparr>])) = ps @ [p]"
    by (simp add: remdups_adj_snoc last_map)
qed

lemma hoare_set_status:
  "hoare (\<lambda>s. history s = h0) (set_status jid (processing_status jid))
     (\<lambda>x. level jid h0 ''processing'' [0.05]) E"
  unfolding hoare_def level_def
  by (auto simp: set_status_def processing_status_def intro!: exI [of _ "[processing_status jid]"])

lemma task_body_levels:
  "hoare (\<lambda>s. history s = h0) (task_body env jid request)
     (\<lambda>x. level jid h0 ''completed'' [0.05, 0.2, 0.4, 0.6, 0.8, 1]) (interrupted jid h0)"
  unfolding task_body_def
  apply (rule hoare_bind [OF hoare_set_status])
  apply (rule hoare_bind, rule hoare_frames [OF frames_pure_io], simp add: levels_before_completion_def)
  apply (rule hoare_bind, rule hoare_frames [OF frames_in_fs], simp add: levels_before_completion_def)
  apply (rule hoare_bind, rule hoare_progress, simp, simp)
  apply (rule hoare_bind, rule hoare_message)
  apply (rule hoare_bind, rule hoare_script)
  apply (rule hoare_bind, rule hoare_frames [OF frames_pure_io], simp add: levels_before_completion_def)
  apply (rule hoare_bind, rule hoare_frames [OF frames_pure_io], simp add: levels_before_completion_def)
  apply (rule hoare_bind, rule hoare_frames [OF frames_code_loop], simp add: levels_before_completion_def)
  apply (rule hoare_bind, rule hoare_progress, simp, simp)
  apply (rule hoare_bind, rule hoare_message)
  apply (rule hoare_bind, rule hoare_frames [OF frames_pure_io], simp add: levels_before_completion_def)
  apply (rule hoare_bind, rule hoare_frames [OF frames_pure_io], simp add: levels_before_completion_def)
  apply (rule hoare_bind, rule hoare_frames [OF frames_audio_loop], simp add: levels_before_completion_def)
  apply (rule hoare_bind, rule hoare_progress, simp, simp)
  apply (rule hoare_bind, rule hoare_message)
  apply (rule hoare_bind, rule hoare_frames [OF frames_video_loop], simp add: levels_before_completion_def)
  apply (rule hoare_bind, rule hoare_progress, simp, simp)
  apply (rule hoare_bind, rule hoare_message)
  apply (rule hoare_bind, rule hoare_frames [OF frames_pure_io], simp add: levels_before_completion_def)
  apply (rule hoare_bind, rule hoare_frames [OF frames_pure_io], simp add: levels_before_completion_def)
  apply (rule hoare_bind, rule hoare_frames [OF frames_combine_loop], simp add: levels_before_completion_def)
  apply (rule hoare_bind, rule hoare_frames [OF frames_in_fs], simp add: levels_before_completion_def)
  apply (rule hoare_bind, rule hoare_status)
  apply (rule hoare_bind, rule hoare_progress, simp, simp)
  apply (rule hoare_bind, rule hoare_message)
  apply simp
  apply (rule hoare_video_url)
  done

lemma level_facts:
  assumes "level jid h0 st ps s" and "sorted ps"
  shows "\<exists>t. history s = h0 @ t \<and> t \<noteq> [] \<and> job_statuses s jid = Some (last t) \<and>
           status (last t) = st \<and> remdups_adj (map progress t) = ps \<and>
           sorted (map progress t) \<and> set (map progress t) = set ps \<and> progress (last t) = last ps"
proof -
  from assms(1) obtain t where t: "history s = h0 @ t" "t \<noteq> []" "job_statuses s jid = Some (last t)"
      "status (last t) = st" "remdups_adj (map progress t) = ps"
    by (auto simp: level_def)
  from t(5) assms(2) have "sorted (map progress t)" by (auto intro: sorted_of_remdups_adj)
  moreover from t(5) have "set (map progress t) = set ps" by (metis remdups_adj_set)
  moreover from t(2,5) have "progress (last t) = last ps"
    by (metis last_map last_remdups_adj)
  ultimately show ?thesis using t by blast
qed

lemma level_after_handler:
  assumes "level jid h0 ''processing'' ps s1"
  shows "\<exists>s'. task_handler jid e s1 = (Inr (), s') \<and> level jid h0 ''failed'' ps s'"
proof -
  from assms obtain t where t: "history s1 = h0 @ t" "t \<noteq> []" "job_statuses s1 jid = Some (last t)"
      "remdups_adj (map progress t) = ps"
    by (auto simp: level_def)
  let ?r = "last t"
  let ?t' = "t @ [?r\<lparr>status := ''failed''\<rparr>,
      ?r\<lparr>status := ''failed'', message := ''Video generation failed''\<rparr>,
      ?r\<lparr>status := ''failed'', message := ''Video generation failed'', error := Some (exn_str e)\<rparr>]"
  let ?xs = "map progress t" and ?x = "progress ?r"
  from t(2) have l: "last ?xs = ?x" by (simp add: last_map)
  from t(2,4) l have a: "remdups_adj (?xs @ [?x]) = ps"
    by (simp add: remdups_adj_snoc)
  then have b: "remdups_adj ((?xs @ [?x]) @ [?x]) = ps"
    by (subst remdups_adj_snoc) simp_all
  then have "remdups_adj (((?xs @ [?x]) @ [?x]) @ [?x]) = ps"
    by (subst remdups_adj_snoc) simp_all
  then have "remdups_adj (map progress ?t') = ps" by simp
  with t(1) task_handler_result [OF t(3), of e] show ?thesis
    unfolding level_def by (auto intro!: exI [of _ ?t'])
qed

text \<open>
  What does hold of the progress: once the four directories are made, the task returns;
  the records it has stored have progress values that never decrease and lie between
  0.05 and 1; and the last of them is the record of the job, either completed with
  progress 1, the values stored being 0.05, 0.2, 0.4, 0.6, 0.8 and 1 in that order, or
  failed with a progress below 1.
\<close>

lemma task_progress_when_setup_succeeds:
  assumes "in_fs (mkdir_all [script_dir jid, audio_dir jid, video_dir jid, output_dir jid]) s = (Inr (), s0)"
  shows "\<exists>t s'. generate_video_task env jid request s = (Inr (), s') \<and>
    history s' = history s @ t \<and> t \<noteq> [] \<and> job_statuses s' jid = Some (last t) \<and>
    sorted (map progress t) \<and> list_all (\<lambda>r. 0.05 \<le> progress r \<and> progress r \<le> 1) t \<and>
    ((status (last t) = ''completed'' \<and> progress (last t) = 1 \<and>
        remdups_adj (map progress t) = [0.05, 0.2, 0.4, 0.6, 0.8, 1]) \<or>
     (status (last t) = ''failed'' \<and> progress (last t) < 1))"
proof -
  from assms have h: "history s0 = history s"
    using frames_in_fs unfolding frames_def by blast
  obtain res s1 where body: "task_body env jid request s0 = (res, s1)"
    by (cases "task_body env jid request s0")
  from task_body_levels [of "history s" env jid request] h body
  have post: "case res of Inl e \<Rightarrow> interrupted jid (history s) s1
      | Inr x \<Rightarrow> level jid (history s) ''completed'' [0.05, 0.2, 0.4, 0.6, 0.8, 1] s1"
    unfolding hoare_def by blast
  show ?thesis
  proof (cases res)
    case (Inr u)
    with post have "level jid (history s) ''completed'' [0.05, 0.2, 0.4, 0.6, 0.8, 1] s1" by simp
    from level_facts [OF this] obtain t where t: "history s1 = history s @ t" "t \<noteq> []"
        "job_statuses s1 jid = Some (last t)" "status (last t) = ''completed''"
        "remdups_adj (map progress t) = [0.05, 0.2, 0.4, 0.6, 0.8, 1]"
        "sorted (map progress t)" "set (map progress t) = set [0.05, 0.2, 0.4, 0.6, 0.8, 1 :: real]"
        "progress (last t) = last [0.05, 0.2, 0.4, 0.6, 0.8, 1 :: real]"
      by auto
    have "progress r \<in> set [0.05, 0.2, 0.4, 0.6, 0.8, 1 :: real]" if "r \<in> set t" for r
      using that t(7) by (metis image_eqI set_map)
    then have "list_all (\<lambda>r. 0.05 \<le> progress r \<and> progress r \<le> 1) t"
      unfolding list_all_iff by fastforce
    moreover from assms body Inr have "generate_video_task env jid request s = (Inr (), s1)"
      by (simp add: generate_video_task_def io_bind_def io_try_def)
    ultimately show ?thesis using t by auto
  next
    case (Inl e)
    with post obtain ps where ps: "ps \<in> set levels_before_completion"
        "level jid (history s) ''processing'' ps s1"
      by (auto simp: interrupted_def list_ex_iff)
    from level_after_handler [OF ps(2), of e] obtain s' where
      s': "task_handler jid e s1 = (Inr (), s')" "level jid (history s) ''failed'' ps s'"
      by blast
    from ps(1) have sorted: "sorted ps" and bounds: "\<forall>p \<in> set ps. 0.05 \<le> p \<and> p \<le> 0.8"
      and "last ps \<le> 0.8"
      by (auto simp: levels_before_completion_def)
    from level_facts [OF s'(2) sorted] obtain t where t: "history s' = history s @ t" "t \<noteq> []"
        "job_statuses s' jid = Some (last t)" "status (last t) = ''failed''"
        "sorted (map progress t)" "set (map progress t) = set ps" "progress (last t) = last ps"
      by auto
    have "progress r \<in> set ps" if "r \<in> set t" for r
      using that t(6) by (metis image_eqI set_map)
    with bounds have "list_all (\<lambda>r. 0.05 \<le> progress r \<and> progress r \<le> 1) t"
      unfolding list_all_iff by fastforce
    moreover from t(7) \<open>last ps \<le> 0.8\<close> have "progress (last t) < 1" by simp
    moreover from assms body Inl s'(1) have "generate_video_task env jid request s = (Inr (), s')"
      by (simp add: generate_video_task_def io_bind_def io_try_def)
    ultimately show ?thesis using t by auto
  qed
qed

text \<open>For a job accepted in \<open>queued_state\<close>, whose record then has progress 0.\<close>

lemma task_progress_example:
  "\<exists>t s'. generate_video_task no_tools ''j1'' circles_request queued_state = (Inr (), s') \<and>
     history s' = queued_status ''j1'' # t \<and> sorted (map progress (queued_status ''j1'' # t)) \<and>
     job_statuses s' ''j1'' = Some (last t) \<and>
     ((status (last t) = ''completed'' \<and> progress (last t) = 1) \<or>
      (status (last t) = ''failed'' \<and> progress (last t) < 1))"
proof -
  from task_progress_when_setup_succeeds [OF workspace_setup, of no_tools circles_request]
  obtain t s' where t: "generate_video_task no_tools ''j1'' circles_request queued_state = (Inr (), s')"
      "history s' = history queued_state @ t" "job_statuses s' ''j1'' = Some (last t)"
      "sorted (map progress t)" "list_all (\<lambda>r. 0.05 \<le> progress r \<and> progress r \<le> 1) t"
      "(status (last t) = ''completed'' \<and> progress (last t) = 1) \<or>
       (status (last t) = ''failed'' \<and> progress (last t) < 1)"
    by blast
  from t(5) have "\<forall>r \<in> set t. progress (queued_status ''j1'') \<le> progress r"
    by (auto simp: list_all_iff queued_status_def)
  with t(4) have "sorted (map progress (queued_status ''j1'' # t))" by simp
  with t show ?thesis by (auto simp: queued_state_def)
qed

end
